theory Spec2Isabelle
  imports Complex_Main "HOL-Library.Product_Lexorder" "HOL-Library.Multiset"
begin

section \<open>Python values: JSON documents and exceptions\<close>

text \<open>
  The Lambda function of \<^verbatim>\<open>bedrock_lambda_function.py\<close> moves Python values around:
  database rows (dictionaries of scalars), the provider's parsed response, the report
  written to S3 and the body of the returned envelope. The JSON-compatible ones are
  modelled by the datatype \<open>json\<close>. A Python \<^verbatim>\<open>float\<close> is carried as its \<^verbatim>\<open>repr\<close> text
  (what \<^verbatim>\<open>json.dumps\<close> prints for it); no floating-point arithmetic is modelled. A
  dictionary is the list of its items in insertion order; the keys of a Python dictionary
  are distinct.
\<close>

datatype json =
    JNull
  | JBool bool
  | JInt int
  | JFloat string
  | JStr string
  | JList "json list"
  | JObj "(string \<times> json) list"

text \<open>An exception is observed by the handler through \<^verbatim>\<open>type(e).__name__\<close> and \<^verbatim>\<open>str(e)\<close>.\<close>

datatype exn = Exn (exn_type: string) (exn_str: string)

text \<open>
  A cell of a database row, as pymysql hands it over: a JSON-compatible value
  (\<^verbatim>\<open>None\<close>, \<^verbatim>\<open>str\<close>, \<^verbatim>\<open>float\<close>), or a \<^verbatim>\<open>decimal.Decimal\<close>, which is what the driver
  returns for a value of an exact numeric SQL type and which \<^verbatim>\<open>json\<close> cannot encode.
\<close>

datatype pyval = JsonValue json | Decimal rat

type_synonym row = "(string \<times> pyval) list"

definition squote :: "string \<Rightarrow> string" where
  "squote s = [CHR 0x27] @ s @ [CHR 0x27]"

fun py_type_name :: "json \<Rightarrow> string" where
  "py_type_name JNull = ''NoneType''"
| "py_type_name (JBool _) = ''bool''"
| "py_type_name (JInt _) = ''int''"
| "py_type_name (JFloat _) = ''float''"
| "py_type_name (JStr _) = ''str''"
| "py_type_name (JList _) = ''list''"
| "py_type_name (JObj _) = ''dict''"

definition not_subscriptable :: "json \<Rightarrow> exn" where
  "not_subscriptable v = Exn ''TypeError'' (squote (py_type_name v) @ '' object is not subscriptable'')"

text \<open>\<^verbatim>\<open>v[k]\<close> for a string literal \<^verbatim>\<open>k\<close> (messages as CPython 3.11 words them).\<close>

fun getitem_str :: "json \<Rightarrow> string \<Rightarrow> exn + json" where
  "getitem_str (JObj kvs) k =
     (case map_of kvs k of None \<Rightarrow> Inl (Exn ''KeyError'' (squote k)) | Some v \<Rightarrow> Inr v)"
| "getitem_str (JList xs) k =
     Inl (Exn ''TypeError'' ''list indices must be integers or slices, not str'')"
| "getitem_str (JStr s) k =
     Inl (Exn ''TypeError'' (''string indices must be integers, not '' @ squote ''str''))"
| "getitem_str v k = Inl (not_subscriptable v)"

text \<open>\<^verbatim>\<open>v[0]\<close>.\<close>

fun getitem0 :: "json \<Rightarrow> exn + json" where
  "getitem0 (JList []) = Inl (Exn ''IndexError'' ''list index out of range'')"
| "getitem0 (JList (x # xs)) = Inr x"
| "getitem0 (JStr []) = Inl (Exn ''IndexError'' ''string index out of range'')"
| "getitem0 (JStr (c # cs)) = Inr (JStr [c])"
| "getitem0 (JObj kvs) = Inl (Exn ''KeyError'' ''0'')"
| "getitem0 v = Inl (not_subscriptable v)"

text \<open>\<^verbatim>\<open>len(v)\<close>: defined on strings, lists and dictionaries; a \<^verbatim>\<open>TypeError\<close> elsewhere.\<close>

fun py_len :: "json \<Rightarrow> exn + nat" where
  "py_len (JStr s) = Inr (length s)"
| "py_len (JList xs) = Inr (length xs)"
| "py_len (JObj kvs) = Inr (length kvs)"
| "py_len v = Inl (Exn ''TypeError'' (''object of type '' @ squote (py_type_name v) @ '' has no len()''))"

section \<open>\<^verbatim>\<open>json.dumps(data, indent=2)\<close>\<close>

definition digit_char :: "nat \<Rightarrow> char" where
  "digit_char n = (''0123456789abcdef'' ! (n mod 16))"

fun show_nat :: "nat \<Rightarrow> string" where
  "show_nat n = (if n < 10 then [digit_char n] else show_nat (n div 10) @ [digit_char (n mod 10)])"

definition show_int :: "int \<Rightarrow> string" where
  "show_int i = (if i < 0 then ''-'' @ show_nat (nat (- i)) else show_nat (nat i))"

text \<open>
  \<^verbatim>\<open>py_encode_basestring_ascii\<close>: backslash, the double quote and every character outside
  the range from space to tilde are escaped (\<^verbatim>\<open>ensure_ascii\<close> is on by default).
\<close>

definition escape_char :: "char \<Rightarrow> string" where
  "escape_char c =
    (if c = CHR 0x5C then [CHR 0x5C, CHR 0x5C]
     else if c = CHR 0x22 then [CHR 0x5C, CHR 0x22]
     else if c = CHR 0x08 then [CHR 0x5C, CHR ''b'']
     else if c = CHR 0x0C then [CHR 0x5C, CHR ''f'']
     else if c = CHR 0x0A then [CHR 0x5C, CHR ''n'']
     else if c = CHR 0x0D then [CHR 0x5C, CHR ''r'']
     else if c = CHR 0x09 then [CHR 0x5C, CHR ''t'']
     else if (of_char c :: nat) < 0x20 \<or> 0x7E < (of_char c :: nat)
       then [CHR 0x5C, CHR ''u'', CHR ''0'', CHR ''0'',
             digit_char (of_char c div 16), digit_char (of_char c)]
     else [c])"

definition dumps_str :: "string \<Rightarrow> string" where
  "dumps_str s = [CHR 0x22] @ concat (map escape_char s) @ [CHR 0x22]"

definition newline_indent :: "nat \<Rightarrow> string" where
  "newline_indent lvl = CHR 0x0A # replicate (2 * lvl) CHR '' ''"

text \<open>
  The pretty-printer at nesting level \<open>lvl\<close>: an empty container prints as \<^verbatim>\<open>[]\<close> or
  \<^verbatim>\<open>{}\<close>; otherwise every item goes on a line of its own, indented by two spaces per
  level, items separated by a comma and keys from values by a colon and a space.
\<close>

fun dumps :: "nat \<Rightarrow> json \<Rightarrow> string"
  and dumps_items :: "nat \<Rightarrow> json list \<Rightarrow> string"
  and dumps_members :: "nat \<Rightarrow> (string \<times> json) list \<Rightarrow> string" where
  "dumps lvl JNull = ''null''"
| "dumps lvl (JBool b) = (if b then ''true'' else ''false'')"
| "dumps lvl (JInt i) = show_int i"
| "dumps lvl (JFloat r) = r"
| "dumps lvl (JStr s) = dumps_str s"
| "dumps lvl (JList []) = ''[]''"
| "dumps lvl (JList (x # xs)) =
     ''['' @ newline_indent (Suc lvl) @ dumps_items (Suc lvl) (x # xs) @ newline_indent lvl @ '']''"
| "dumps lvl (JObj []) = ''{}''"
| "dumps lvl (JObj (m # ms)) =
     ''{'' @ newline_indent (Suc lvl) @ dumps_members (Suc lvl) (m # ms) @ newline_indent lvl @ ''}''"
| "dumps_items lvl [] = []"
| "dumps_items lvl [x] = dumps lvl x"
| "dumps_items lvl (x # y # ys) =
     dumps lvl x @ '','' @ newline_indent lvl @ dumps_items lvl (y # ys)"
| "dumps_members lvl [] = []"
| "dumps_members lvl [(k, v)] = dumps_str k @ '': '' @ dumps lvl v"
| "dumps_members lvl ((k, v) # m # ms) =
     dumps_str k @ '': '' @ dumps lvl v @ '','' @ newline_indent lvl @ dumps_members lvl (m # ms)"

text \<open>
  The encoder walks the rows in order and the items of a row in order, and raises
  \<^verbatim>\<open>TypeError\<close> at the first value it cannot encode; nothing is returned then.
\<close>

fun json_of :: "pyval \<Rightarrow> exn + json" where
  "json_of (JsonValue v) = Inr v"
| "json_of (Decimal d) = Inl (Exn ''TypeError'' ''Object of type Decimal is not JSON serializable'')"

fun members_json :: "row \<Rightarrow> exn + (string \<times> json) list" where
  "members_json [] = Inr []"
| "members_json ((k, v) # m) =
     (case json_of v of
        Inl e \<Rightarrow> Inl e
      | Inr j \<Rightarrow> (case members_json m of Inl e \<Rightarrow> Inl e | Inr js \<Rightarrow> Inr ((k, j) # js)))"

fun rows_json :: "row list \<Rightarrow> exn + json list" where
  "rows_json [] = Inr []"
| "rows_json (r # rs) =
     (case members_json r of
        Inl e \<Rightarrow> Inl e
      | Inr m \<Rightarrow> (case rows_json rs of Inl e \<Rightarrow> Inl e | Inr js \<Rightarrow> Inr (JObj m # js)))"

definition json_dumps :: "row list \<Rightarrow> exn + string" where
  "json_dumps data =
    (case rows_json data of Inl e \<Rightarrow> Inl e | Inr js \<Rightarrow> Inr (dumps 0 (JList js)))"

section \<open>The prompt templates of \<^verbatim>\<open>create_bedrock_prompt\<close>\<close>

definition py_lines :: "string list \<Rightarrow> string" where
  "py_lines ls = concat (map (\<lambda>l. l @ [CHR 0x0A]) ls)"

text \<open>
  Each template is an f-string with one hole, \<^verbatim>\<open>{data_json}\<close>: the text before the hole
  and the text after it, line by line (every line ends in a newline).
\<close>

definition comprehensive_pre :: string where
  "comprehensive_pre = py_lines
    ['''',
     ''You are an expert education data analyst for government schools in India.'',
     '''',
     ''Analyze this district performance data:'',
     '''']"

definition comprehensive_post :: string where
  "comprehensive_post = py_lines
    ['''',
     '''',
     ''Provide a comprehensive analysis including:'',
     '''',
     ''1. EXECUTIVE SUMMARY'',
     ''   - Overall state of districts (2-3 sentences)'',
     ''   - Key finding'',
     '''',
     ''2. TOP PERFORMERS'',
     ''   - List top 3 districts'',
     ''   - What makes them successful?'',
     ''   - Common success patterns'',
     '''',
     ''3. UNDERPERFORMERS'',
     ''   - List bottom 3 districts'',
     ''   - What are their main issues?'',
     ''   - Root causes'',
     '''',
     ''4. KEY INSIGHTS'',
     ''   - Correlation between KPIs'',
     ''   - Surprising patterns'',
     ''   - Critical observations'',
     '''',
     ''5. RECOMMENDATIONS'',
     ''   - 5 specific, actionable recommendations'',
     ''   - Priority level (High/Medium/Low)'',
     ''   - Expected impact'',
     ''   - Timeline for implementation'',
     '''',
     ''Format with clear sections and bullet points.'']"

definition at_risk_pre :: string where
  "at_risk_pre = py_lines
    ['''',
     ''Analyze these at-risk districts (performance index < 60):'',
     '''']"

definition at_risk_post :: string where
  "at_risk_post = py_lines
    ['''',
     '''',
     ''For each district:'',
     ''1. RISK LEVEL: High/Medium/Low'',
     ''2. PRIMARY ISSUES: What's causing poor performance?'',
     ''3. IMMEDIATE ACTIONS: What to do in next 30 days?'',
     ''4. MEDIUM-TERM PLAN: 3-6 month improvement strategy'',
     ''5. RESOURCES NEEDED: Budget, staff, infrastructure'',
     '''',
     ''Prioritize by urgency and feasibility.'']"

definition quick_summary_pre :: string where
  "quick_summary_pre = py_lines
    ['''',
     ''Provide a brief summary of district performance:'',
     '''']"

definition quick_summary_post :: string where
  "quick_summary_post = py_lines
    ['''',
     '''',
     ''Include:'',
     ''- Overall state (1 sentence)'',
     ''- Top 3 performers'',
     ''- Bottom 3 performers  '',
     ''- One key recommendation'',
     '''',
     ''Keep it concise (under 200 words).'']"

definition at_risk_students_pre :: string where
  "at_risk_students_pre = py_lines
    ['''',
     ''Analyze these at-risk students:'',
     '''']"

definition at_risk_students_post :: string where
  "at_risk_students_post = py_lines
    ['''',
     '''',
     ''For each student or group:'',
     ''1. RISK ASSESSMENT: High/Medium/Low risk level'',
     ''2. RISK FACTORS: What's causing the issues?'',
     ''3. INTERVENTION PLAN: Specific actions to take'',
     ''4. TIMELINE: When to implement interventions'',
     ''5. SUCCESS METRICS: How to measure improvement'',
     '''',
     ''Prioritize students by risk level.'']"

definition predictive_pre :: string where
  "predictive_pre = py_lines
    ['''',
     ''Based on this current performance data:'',
     '''']"

definition predictive_post :: string where
  "predictive_post = py_lines
    ['''',
     '''',
     ''Provide predictive analysis:'',
     ''1. TRENDS: Which districts are improving/declining?'',
     ''2. PREDICTIONS: Expected performance next quarter'',
     ''3. EARLY WARNINGS: Signs of potential problems'',
     ''4. OPPORTUNITIES: Districts ready for breakthrough'',
     ''5. PREVENTIVE ACTIONS: What to do now to improve outcomes'',
     '''',
     ''Use data-driven reasoning.'']"

section \<open>The two SQL queries\<close>

text \<open>
  The numeric normalisation of the rows is not done in Python: it is written in the SELECT
  lists of the two SQL queries, which the database evaluates. The queries are modelled from
  their text, on the rows that the FROM clause yields: one row of the join per district
  (district query), one group of joined rows per active student (at-risk query,
  \<^verbatim>\<open>GROUP BY s.student_id\<close>). An SQL value is an \<open>option\<close>, \<open>None\<close> being NULL. Numbers
  are modelled as rationals and the arithmetic of the SELECT lists as exact.
\<close>

definition COALESCE :: "rat option \<Rightarrow> rat \<Rightarrow> rat option" where
  "COALESCE x d = (case x of None \<Rightarrow> Some d | Some v \<Rightarrow> Some v)"

text \<open>
  \<^verbatim>\<open>ROUND(x, 2)\<close>: to the nearest value with two decimal places, a half away from zero,
  as the database rounds exact values. (For an approximate value the database may round a
  half the other way; what is proved below about rounding holds for either choice.)
\<close>

definition round_half_away :: "rat \<Rightarrow> int" where
  "round_half_away x = (if 0 \<le> x then \<lfloor>x + 1 / 2\<rfloor> else - \<lfloor>- x + 1 / 2\<rfloor>)"

definition ROUND :: "rat option \<Rightarrow> nat \<Rightarrow> rat option" where
  "ROUND x d = map_option (\<lambda>v. of_int (round_half_away (v * 10 ^ d)) / 10 ^ d) x"

text \<open>Aggregates skip NULL; \<^verbatim>\<open>AVG\<close> of no value is NULL.\<close>

definition non_null :: "'a option list \<Rightarrow> 'a list" where
  "non_null xs = concat (map (\<lambda>x. case x of None \<Rightarrow> [] | Some v \<Rightarrow> [v]) xs)"

definition AVG :: "rat option list \<Rightarrow> rat option" where
  "AVG xs = (if non_null xs = [] then None
             else Some (sum_list (non_null xs) / of_nat (length (non_null xs))))"

definition COUNT :: "'a option list \<Rightarrow> nat" where
  "COUNT xs = length (non_null xs)"

definition NULLIF :: "nat \<Rightarrow> nat \<Rightarrow> nat option" where
  "NULLIF a b = (if a = b then None else Some a)"

text \<open>\<^verbatim>\<open>x / y\<close> with a divisor that may be NULL.\<close>

definition sql_div :: "rat \<Rightarrow> nat option \<Rightarrow> rat option" where
  "sql_div x y = map_option (\<lambda>n. x / of_nat n) y"

text \<open>
  One row of the join of the district query: the two names and the seven KPI columns, each
  NULL when the LEFT JOIN finds no KPI row for the district.
\<close>

record district_join =
  d_district_name :: string
  s_state_name :: string
  c_district_performance_index :: "rat option"
  sa_attendance_percentage :: "rat option"
  ep_pass_percentage :: "rat option"
  sp_sports_participation_rate :: "rat option"
  ae_activity_engagement_rate :: "rat option"
  ta_teacher_attendance_percentage :: "rat option"
  i_avg_inspection_score :: "rat option"

record district_kpi =
  district_name :: string
  state_name :: string
  performance_index :: "rat option"
  student_attendance :: "rat option"
  pass_rate :: "rat option"
  sports_participation :: "rat option"
  activity_engagement :: "rat option"
  teacher_attendance :: "rat option"
  inspection_score :: "rat option"

definition select_district_kpis :: "district_join \<Rightarrow> district_kpi" where
  "select_district_kpis j =
    \<lparr>district_name = d_district_name j,
     state_name = s_state_name j,
     performance_index = ROUND (COALESCE (c_district_performance_index j) 0) 2,
     student_attendance = ROUND (COALESCE (sa_attendance_percentage j) 0) 2,
     pass_rate = ROUND (COALESCE (ep_pass_percentage j) 0) 2,
     sports_participation = ROUND (COALESCE (sp_sports_participation_rate j) 0) 2,
     activity_engagement = ROUND (COALESCE (ae_activity_engagement_rate j) 0) 2,
     teacher_attendance = ROUND (COALESCE (ta_teacher_attendance_percentage j) 0) 2,
     inspection_score = ROUND (COALESCE (i_avg_inspection_score j) 0) 2\<rparr>"

text \<open>
  One group of the at-risk query: the names of the student, and for every joined row of the
  group its \<^verbatim>\<open>er.marks_obtained\<close>, \<^verbatim>\<open>sa.attendance_id\<close> and \<^verbatim>\<open>sa.status\<close>, each NULL
  when the LEFT JOIN finds nothing.
\<close>

record student_group =
  g_student_name :: string
  g_gender :: string
  g_school_name :: string
  g_district_name :: string
  er_marks_obtained :: "rat option list"
  sa_attendance_id :: "nat option list"
  sa_status :: "string option list"

record at_risk_student =
  student_name :: string
  gender :: string
  school_name :: string
  student_district_name :: string
  avg_marks :: "rat option"
  attendance_pct :: "rat option"

text \<open>\<^verbatim>\<open>CASE WHEN sa.status = 'Present' THEN 1 END\<close>: NULL in every other case.\<close>

definition present_case :: "string option \<Rightarrow> nat option" where
  "present_case status = (if status = Some ''Present'' then Some 1 else None)"

definition select_at_risk_students :: "student_group \<Rightarrow> at_risk_student" where
  "select_at_risk_students g =
    \<lparr>student_name = g_student_name g,
     gender = g_gender g,
     school_name = g_school_name g,
     student_district_name = g_district_name g,
     avg_marks = ROUND (AVG (er_marks_obtained g)) 2,
     attendance_pct =
       ROUND (sql_div (of_nat (COUNT (map present_case (sa_status g))) * 100)
                      (NULLIF (COUNT (sa_attendance_id g)) 0)) 2\<rparr>"

text \<open>
  \<^verbatim>\<open>HAVING avg_marks < 60 OR attendance_pct < 70\<close>: a comparison with NULL is not true,
  and the group is kept when the disjunction is true.
\<close>

definition sql_less :: "rat option \<Rightarrow> rat \<Rightarrow> bool" where
  "sql_less x b = (case x of None \<Rightarrow> False | Some v \<Rightarrow> v < b)"

definition having_at_risk :: "at_risk_student \<Rightarrow> bool" where
  "having_at_risk r = (sql_less (avg_marks r) 60 \<or> sql_less (attendance_pct r) 70)"

text \<open>
  \<^verbatim>\<open>ORDER BY c.district_performance_index DESC\<close>: by the column of the join, not by the
  rounded field; NULL comes last in a descending order. Where the database leaves the
  order of equal keys open, the model keeps the order of the join.
\<close>

definition district_order_key :: "district_join \<Rightarrow> nat \<times> rat" where
  "district_order_key j =
    (case c_district_performance_index j of None \<Rightarrow> (1, 0) | Some v \<Rightarrow> (0, - v))"

definition district_kpis_query :: "district_join list \<Rightarrow> district_kpi list" where
  "district_kpis_query js = map select_district_kpis (sort_key district_order_key js)"

text \<open>
  \<^verbatim>\<open>ORDER BY avg_marks ASC, attendance_pct ASC LIMIT 20\<close>: by the two fields of the
  SELECT list; NULL comes first in an ascending order.
\<close>

definition null_first :: "rat option \<Rightarrow> nat \<times> rat" where
  "null_first x = (case x of None \<Rightarrow> (0, 0) | Some v \<Rightarrow> (1, v))"

definition at_risk_order_key :: "at_risk_student \<Rightarrow> (nat \<times> rat) \<times> (nat \<times> rat)" where
  "at_risk_order_key r = (null_first (avg_marks r), null_first (attendance_pct r))"

definition at_risk_students_query :: "student_group list \<Rightarrow> at_risk_student list" where
  "at_risk_students_query gs =
    take 20 (sort_key at_risk_order_key
               (filter having_at_risk (map select_at_risk_students gs)))"

definition registered_prompts :: "(string \<times> string \<times> string) list" where
  "registered_prompts =
    [(''comprehensive'', comprehensive_pre, comprehensive_post),
     (''at_risk'', at_risk_pre, at_risk_post),
     (''quick_summary'', quick_summary_pre, quick_summary_post),
     (''at_risk_students'', at_risk_students_pre, at_risk_students_post),
     (''predictive'', predictive_pre, predictive_post)]"

text \<open>
  \<^verbatim>\<open>json.dumps(data, indent=2)\<close> comes first and may raise; then the dictionary of the
  five filled-in templates is built and \<^verbatim>\<open>prompts.get(analysis_type,
  prompts['comprehensive'])\<close> looks the type up, with the comprehensive template as the
  default.
\<close>

definition create_bedrock_prompt :: "row list \<Rightarrow> string \<Rightarrow> exn + string" where
  "create_bedrock_prompt data analysis_type =
    (case json_dumps data of
       Inl e \<Rightarrow> Inl e
     | Inr data_json \<Rightarrow>
         (let prompts = map (\<lambda>(name, pre, post). (name, pre @ data_json @ post)) registered_prompts
          in case map_of prompts analysis_type of
               Some prompt \<Rightarrow> Inr prompt
             | None \<Rightarrow> Inr (comprehensive_pre @ data_json @ comprehensive_post)))"

section \<open>The outside world and the effects of a run\<close>

text \<open>
  The database, the Bedrock runtime, S3 and the clock are external. A world fixes what they
  answer: for each of the two queries the rows of its FROM clause (or the exception raised
  while connecting, executing, fetching or closing), the outcome of the \<open>i\<close>-th call of
  \<^verbatim>\<open>bedrock.invoke_model\<close> with its response body read and parsed (a JSON value, or the
  exception raised on the way), the outcome of \<^verbatim>\<open>s3.put_object\<close>, the configured bucket
  and the clock readings as the code formats them.

  The schema of the database is not part of the repository, so the numeric type of each
  source column is a parameter of the world: exact (DECIMAL, integer) or approximate
  (FLOAT, DOUBLE). The text that Python prints for a \<^verbatim>\<open>float\<close> is a parameter as well.
\<close>

datatype sql_type = Exact | Approximate

record world =
  district_join_rows :: "exn + district_join list"
  student_groups :: "exn + student_group list"
  column_type :: "string \<Rightarrow> sql_type"
  float_repr :: "rat \<Rightarrow> string"
  bedrock :: "nat \<Rightarrow> string \<Rightarrow> json \<Rightarrow> exn + json"
  s3_put :: "string \<Rightarrow> string \<Rightarrow> json \<Rightarrow> exn option"
  S3_BUCKET :: string
  stamp_key :: string
  iso_report :: string
  iso_body :: string
  execution_time :: string

text \<open>
  What the driver makes of a numeric field: \<^verbatim>\<open>None\<close> of NULL, a \<^verbatim>\<open>decimal.Decimal\<close> of
  a value of exact type, a \<^verbatim>\<open>float\<close> of a value of approximate type. \<^verbatim>\<open>COALESCE(x, 0)\<close>
  and \<^verbatim>\<open>ROUND(x, 2)\<close> keep the type of \<open>x\<close>, and so does \<^verbatim>\<open>AVG\<close> as far as exact or
  approximate goes. The attendance percentage is exact whatever the schema is: a count
  times the exact literal \<^verbatim>\<open>100.0\<close>, divided by a count.
\<close>

definition py_number :: "world \<Rightarrow> sql_type \<Rightarrow> rat option \<Rightarrow> pyval" where
  "py_number w ty x =
    (case x of
       None \<Rightarrow> JsonValue JNull
     | Some v \<Rightarrow> (case ty of Exact \<Rightarrow> Decimal v
                              | Approximate \<Rightarrow> JsonValue (JFloat (float_repr w v))))"

text \<open>A row of the \<^verbatim>\<open>DictCursor\<close>: the fields under their aliases, in the order of the SELECT list.\<close>

definition py_district_row :: "world \<Rightarrow> district_kpi \<Rightarrow> row" where
  "py_district_row w r =
    [(''district_name'', JsonValue (JStr (district_name r))),
     (''state_name'', JsonValue (JStr (state_name r))),
     (''performance_index'',
        py_number w (column_type w ''c.district_performance_index'') (performance_index r)),
     (''student_attendance'',
        py_number w (column_type w ''sa.attendance_percentage'') (student_attendance r)),
     (''pass_rate'', py_number w (column_type w ''ep.pass_percentage'') (pass_rate r)),
     (''sports_participation'',
        py_number w (column_type w ''sp.sports_participation_rate'') (sports_participation r)),
     (''activity_engagement'',
        py_number w (column_type w ''ae.activity_engagement_rate'') (activity_engagement r)),
     (''teacher_attendance'',
        py_number w (column_type w ''ta.teacher_attendance_percentage'') (teacher_attendance r)),
     (''inspection_score'',
        py_number w (column_type w ''i.avg_inspection_score'') (inspection_score r))]"

definition py_student_row :: "world \<Rightarrow> at_risk_student \<Rightarrow> row" where
  "py_student_row w r =
    [(''student_name'', JsonValue (JStr (student_name r))),
     (''gender'', JsonValue (JStr (gender r))),
     (''school_name'', JsonValue (JStr (school_name r))),
     (''district_name'', JsonValue (JStr (student_district_name r))),
     (''avg_marks'', py_number w (column_type w ''er.marks_obtained'') (avg_marks r)),
     (''attendance_pct'', py_number w Exact (attendance_pct r))]"

text \<open>What \<^verbatim>\<open>cursor.fetchall()\<close> returns for each query, or the exception raised.\<close>

definition db_district :: "world \<Rightarrow> exn + row list" where
  "db_district w =
    (case district_join_rows w of
       Inl e \<Rightarrow> Inl e
     | Inr js \<Rightarrow> Inr (map (py_district_row w) (district_kpis_query js)))"

definition db_at_risk :: "world \<Rightarrow> exn + row list" where
  "db_at_risk w =
    (case student_groups w of
       Inl e \<Rightarrow> Inl e
     | Inr gs \<Rightarrow> Inr (map (py_student_row w) (at_risk_students_query gs)))"

text \<open>What a run did to the outside: queries issued, provider calls, S3 writes, in order.\<close>

record trace =
  fetches :: "string list"
  bedrock_calls :: "(string \<times> json) list"
  s3_puts :: "(string \<times> string \<times> json) list"

definition no_trace :: trace where
  "no_trace = \<lparr>fetches = [], bedrock_calls = [], s3_puts = []\<rparr>"

text \<open>
  Each fetch function connects, executes its query and returns what \<^verbatim>\<open>fetchall\<close> gives,
  unchanged; the connection is closed on every path.
\<close>

definition fetch_district_kpis :: "world \<Rightarrow> trace \<Rightarrow> (exn + row list) \<times> trace" where
  "fetch_district_kpis w tr = (db_district w, tr\<lparr>fetches := fetches tr @ [''district_kpis'']\<rparr>)"

definition fetch_at_risk_students :: "world \<Rightarrow> trace \<Rightarrow> (exn + row list) \<times> trace" where
  "fetch_at_risk_students w tr = (db_at_risk w, tr\<lparr>fetches := fetches tr @ [''at_risk_students'']\<rparr>)"

section \<open>\<^verbatim>\<open>invoke_bedrock\<close>\<close>

definition request_body :: "string \<Rightarrow> json" where
  "request_body prompt =
    JObj [(''anthropic_version'', JStr ''bedrock-2023-05-31''),
          (''max_tokens'', JInt 2000),
          (''messages'', JList [JObj [(''role'', JStr ''user''), (''content'', JStr prompt)]]),
          (''temperature'', JFloat ''0.7''),
          (''top_p'', JFloat ''0.9'')]"

definition bind_exn :: "exn + 'a \<Rightarrow> ('a \<Rightarrow> exn + 'b) \<Rightarrow> exn + 'b" where
  "bind_exn r f = (case r of Inl e \<Rightarrow> Inl e | Inr v \<Rightarrow> f v)"

text \<open>
  \<^verbatim>\<open>response_body['content'][0]['text']\<close>, then the \<^verbatim>\<open>len\<close> of the logging line: each
  step raises on a response of another shape.
\<close>

definition unwrap_response :: "json \<Rightarrow> exn + json" where
  "unwrap_response response_body =
    bind_exn (getitem_str response_body ''content'') (\<lambda>content.
    bind_exn (getitem0 content) (\<lambda>block.
    bind_exn (getitem_str block ''text'') (\<lambda>analysis_text.
    bind_exn (py_len analysis_text) (\<lambda>n. Inr analysis_text))))"

text \<open>
  One call of \<^verbatim>\<open>bedrock.invoke_model\<close>, whatever it answers; the call is recorded with its
  model identifier and request body.
\<close>

definition invoke_bedrock :: "world \<Rightarrow> trace \<Rightarrow> string \<Rightarrow> string \<Rightarrow> (exn + json) \<times> trace" where
  "invoke_bedrock w tr prompt model_id =
    (let body = request_body prompt;
         response = bedrock w (length (bedrock_calls tr)) model_id body
     in (bind_exn response unwrap_response,
         tr\<lparr>bedrock_calls := bedrock_calls tr @ [(model_id, body)]\<rparr>))"

section \<open>\<^verbatim>\<open>save_to_s3\<close>\<close>

text \<open>
  The whole body of the function is inside \<^verbatim>\<open>try ... except Exception\<close>: a failed write
  prints a warning and returns \<^verbatim>\<open>None\<close>.
\<close>

definition save_to_s3 :: "world \<Rightarrow> trace \<Rightarrow> json \<Rightarrow> string \<Rightarrow> json \<Rightarrow> string option \<times> trace" where
  "save_to_s3 w tr analysis analysis_type metadata =
    (let key = ''reports/'' @ analysis_type @ ''/'' @ stamp_key w @ ''.json'';
         report = JObj [(''timestamp'', JStr (iso_report w)),
                        (''analysis_type'', JStr analysis_type),
                        (''metadata'', metadata),
                        (''analysis'', analysis)];
         tr' = tr\<lparr>s3_puts := s3_puts tr @ [(S3_BUCKET w, key, report)]\<rparr>
     in case s3_put w (S3_BUCKET w) key report of
          None \<Rightarrow> (Some (''s3://'' @ S3_BUCKET w @ ''/'' @ key), tr')
        | Some e \<Rightarrow> (None, tr'))"

section \<open>\<^verbatim>\<open>lambda_handler\<close>\<close>

text \<open>
  The event carries three optional parameters (\<open>None\<close>: the key is absent), typed as the
  handler's docstring declares them. The response is the dictionary the handler returns;
  its \<open>body\<close> is the value handed to \<^verbatim>\<open>json.dumps\<close>.
\<close>

record event =
  ev_analysis_type :: "string option"
  ev_model :: "string option"
  ev_save_to_s3 :: "bool option"

record response =
  statusCode :: nat
  headers :: "(string \<times> string) list option"
  body :: json

definition sonnet_id :: string where
  "sonnet_id = ''anthropic.claude-3-sonnet-20240229-v1:0''"

definition models :: "(string \<times> string) list" where
  "models = [(''sonnet'', sonnet_id),
             (''haiku'', ''anthropic.claude-3-haiku-20240307-v1:0''),
             (''claude-2'', ''anthropic.claude-v2:1'')]"

definition models_get :: "string \<Rightarrow> string" where
  "models_get model_choice = (case map_of models model_choice of Some m \<Rightarrow> m | None \<Rightarrow> sonnet_id)"

definition no_risk_response :: response where
  "no_risk_response =
    \<lparr>statusCode = 200, headers = None,
     body = JObj [(''message'', JStr ''No at-risk students identified''),
                  (''analysis'', JStr ''All students are performing well!'')]\<rparr>"

definition error_response :: "exn \<Rightarrow> response" where
  "error_response e =
    \<lparr>statusCode = 500, headers = None,
     body = JObj [(''error'', JStr (exn_str e)), (''error_type'', JStr (exn_type e))]\<rparr>"

definition make_metadata :: "world \<Rightarrow> string \<Rightarrow> string \<Rightarrow> row list \<Rightarrow> json" where
  "make_metadata w model_choice model_id data =
    JObj [(''model'', JStr model_choice),
          (''model_id'', JStr model_id),
          (''records_analyzed'', JInt (int (length data))),
          (''execution_time_seconds'', JFloat (execution_time w))]"

definition success_response :: "world \<Rightarrow> string \<Rightarrow> json \<Rightarrow> string option \<Rightarrow> json \<Rightarrow> response" where
  "success_response w analysis_type metadata s3_path analysis =
    \<lparr>statusCode = 200,
     headers = Some [(''Content-Type'', ''application/json''), (''Access-Control-Allow-Origin'', ''*'')],
     body = JObj [(''timestamp'', JStr (iso_body w)),
                  (''analysis_type'', JStr analysis_type),
                  (''metadata'', metadata),
                  (''s3_path'', (case s3_path of None \<Rightarrow> JNull | Some p \<Rightarrow> JStr p)),
                  (''analysis'', analysis)]\<rparr>"

text \<open>The body of the \<^verbatim>\<open>try\<close> block: \<open>Inl e\<close> is the exception \<open>e\<close> leaving it.\<close>

definition handler_try :: "event \<Rightarrow> world \<Rightarrow> (exn + response) \<times> trace" where
  "handler_try ev w =
    (let analysis_type = (case ev_analysis_type ev of None \<Rightarrow> ''comprehensive'' | Some t \<Rightarrow> t);
         model_choice = (case ev_model ev of None \<Rightarrow> ''sonnet'' | Some m \<Rightarrow> m);
         save_s3 = (case ev_save_to_s3 ev of None \<Rightarrow> True | Some b \<Rightarrow> b);
         model_id = models_get model_choice;
         (fetched, tr1) = (if analysis_type = ''at_risk_students''
                           then fetch_at_risk_students w no_trace
                           else fetch_district_kpis w no_trace)
     in (case fetched of
           Inl e \<Rightarrow> (Inl e, tr1)
         | Inr data \<Rightarrow>
            (if analysis_type = ''at_risk_students'' \<and> data = [] then (Inr no_risk_response, tr1)
             else
              (case create_bedrock_prompt data analysis_type of
                 Inl e \<Rightarrow> (Inl e, tr1)
               | Inr prompt \<Rightarrow>
                  (let (invoked, tr2) = invoke_bedrock w tr1 prompt model_id
                   in (case invoked of
                         Inl e \<Rightarrow> (Inl e, tr2)
                       | Inr analysis \<Rightarrow>
                          (let metadata = make_metadata w model_choice model_id data;
                               (s3_path, tr3) =
                                 (if save_s3
                                  then save_to_s3 w tr2 analysis analysis_type metadata
                                  else (None, tr2))
                           in (Inr (success_response w analysis_type metadata s3_path analysis),
                               tr3))))))))"

text \<open>\<^verbatim>\<open>except Exception as e\<close>: every exception of the body becomes a status-500 response.\<close>

definition lambda_handler :: "event \<Rightarrow> world \<Rightarrow> response \<times> trace" where
  "lambda_handler ev w =
    (case handler_try ev w of
       (Inl e, tr) \<Rightarrow> (error_response e, tr)
     | (Inr r, tr) \<Rightarrow> (r, tr))"

text \<open>A value with at most two decimal places.\<close>

definition two_decimals :: "rat \<Rightarrow> bool" where
  "two_decimals x = (of_int \<lfloor>x * 100\<rfloor> = x * 100)"

definition kpi_fields :: "district_kpi \<Rightarrow> rat option list" where
  "kpi_fields r =
    [performance_index r, student_attendance r, pass_rate r, sports_participation r,
     activity_engagement r, teacher_attendance r, inspection_score r]"

text \<open>A student with two attendance records, one of them present, and no exam result.\<close>

definition no_exam_student :: student_group where
  "no_exam_student =
    \<lparr>g_student_name = ''Asha'', g_gender = ''F'', g_school_name = ''ZP School'',
     g_district_name = ''Latur'',
     er_marks_obtained = [None, None],
     sa_attendance_id = [Some 1, Some 2],
     sa_status = [Some ''Present'', Some ''Absent'']\<rparr>"

definition sample_join :: district_join where
  "sample_join =
    \<lparr>d_district_name = ''Pune'', s_state_name = ''Maharashtra'',
     c_district_performance_index = Some (92505 / 1000),
     sa_attendance_percentage = None,
     ep_pass_percentage = Some 71,
     sp_sports_participation_rate = Some (1 / 3),
     ae_activity_engagement_rate = None,
     ta_teacher_attendance_percentage = Some (- 5 / 1000),
     i_avg_inspection_score = Some (4025 / 100)\<rparr>"

definition kpi_columns :: "district_join \<Rightarrow> rat option list" where
  "kpi_columns j =
    [c_district_performance_index j, sa_attendance_percentage j, ep_pass_percentage j,
     sp_sports_participation_rate j, ae_activity_engagement_rate j,
     ta_teacher_attendance_percentage j, i_avg_inspection_score j]"

text \<open>
  What the specification asks of a numeric field: \<open>out\<close> is not NULL, has two decimal
  places and is the nearest such value to \<open>src\<close>, with 0 standing for a NULL \<open>src\<close>.
\<close>

definition coerced_and_rounded :: "rat option \<Rightarrow> rat option \<Rightarrow> bool" where
  "coerced_and_rounded src out =
    (case out of
       None \<Rightarrow> False
     | Some r \<Rightarrow> two_decimals r \<and> \<bar>r - (case src of None \<Rightarrow> 0 | Some v \<Rightarrow> v)\<bar> \<le> 1 / 200)"

section \<open>Vocabulary for stating the properties\<close>

text \<open>The three parameters of a run after the defaults of \<^verbatim>\<open>event.get\<close> are applied.\<close>

definition the_analysis_type :: "event \<Rightarrow> string" where
  "the_analysis_type ev = (case ev_analysis_type ev of None \<Rightarrow> ''comprehensive'' | Some t \<Rightarrow> t)"

definition the_model_choice :: "event \<Rightarrow> string" where
  "the_model_choice ev = (case ev_model ev of None \<Rightarrow> ''sonnet'' | Some m \<Rightarrow> m)"

definition the_save_s3 :: "event \<Rightarrow> bool" where
  "the_save_s3 ev = (case ev_save_to_s3 ev of None \<Rightarrow> True | Some b \<Rightarrow> b)"

text \<open>The outcome of the query that the analysis type selects.\<close>

definition db_for :: "world \<Rightarrow> string \<Rightarrow> exn + row list" where
  "db_for w analysis_type =
    (if analysis_type = ''at_risk_students'' then db_at_risk w else db_district w)"

definition query_for :: "string \<Rightarrow> string" where
  "query_for analysis_type =
    (if analysis_type = ''at_risk_students'' then ''at_risk_students'' else ''district_kpis'')"

text \<open>The answer of the provider to the only call a run can make: call number 0.\<close>

definition provider_answer :: "world \<Rightarrow> event \<Rightarrow> string \<Rightarrow> exn + json" where
  "provider_answer w ev prompt =
    bedrock w 0 (models_get (the_model_choice ev)) (request_body prompt)"

text \<open>
  What \<^verbatim>\<open>invoke_bedrock\<close> returns in a run that has rendered \<open>prompt\<close>: it is called with
  the prompt and the resolved model identifier, after the one query of the run.
\<close>

definition inference_result :: "world \<Rightarrow> event \<Rightarrow> string \<Rightarrow> exn + json" where
  "inference_result w ev prompt =
    fst (invoke_bedrock w (no_trace\<lparr>fetches := [query_for (the_analysis_type ev)]\<rparr>)
          prompt (models_get (the_model_choice ev)))"

text \<open>Reading a field of a JSON object; \<open>None\<close> when the key is absent or the value no object.\<close>

fun field :: "json \<Rightarrow> string \<Rightarrow> json option" where
  "field (JObj kvs) k = map_of kvs k"
| "field v k = None"

text \<open>
  The envelopes the handler can return. A success has status 200, the two headers and a
  body of exactly five fields: the timestamp and the analysis type (strings), the metadata
  (model and model identifier as strings, the number of records, the execution time), the
  S3 path (a string or null) and the analysis, a value that has a length (never null). The
  short circuit has status 200 and the fixed two-field body. A failure has status 500 and a
  body of exactly two fields, the message and the kind of the error, both strings.
\<close>

fun object_keys :: "json \<Rightarrow> string list" where
  "object_keys (JObj kvs) = map fst kvs"
| "object_keys v = []"

fun is_str :: "json option \<Rightarrow> bool" where
  "is_str (Some (JStr s)) = True"
| "is_str v = False"

fun is_str_or_null :: "json option \<Rightarrow> bool" where
  "is_str_or_null (Some (JStr s)) = True"
| "is_str_or_null (Some JNull) = True"
| "is_str_or_null v = False"

fun is_count :: "json option \<Rightarrow> bool" where
  "is_count (Some (JInt n)) = (0 \<le> n)"
| "is_count v = False"

fun is_float :: "json option \<Rightarrow> bool" where
  "is_float (Some (JFloat t)) = True"
| "is_float v = False"

fun is_sized :: "json option \<Rightarrow> bool" where
  "is_sized (Some (JStr s)) = True"
| "is_sized (Some (JList xs)) = True"
| "is_sized (Some (JObj kvs)) = True"
| "is_sized v = False"

definition metadata_ok :: "json \<Rightarrow> bool" where
  "metadata_ok m =
    (object_keys m = [''model'', ''model_id'', ''records_analyzed'', ''execution_time_seconds'']
     \<and> is_str (field m ''model'') \<and> is_str (field m ''model_id'')
     \<and> is_count (field m ''records_analyzed'')
     \<and> is_float (field m ''execution_time_seconds''))"

definition success_envelope :: "response \<Rightarrow> bool" where
  "success_envelope r =
    (statusCode r = 200
     \<and> headers r = Some [(''Content-Type'', ''application/json''),
                         (''Access-Control-Allow-Origin'', ''*'')]
     \<and> object_keys (body r) = [''timestamp'', ''analysis_type'', ''metadata'', ''s3_path'', ''analysis'']
     \<and> is_str (field (body r) ''timestamp'')
     \<and> is_str (field (body r) ''analysis_type'')
     \<and> (case field (body r) ''metadata'' of Some m \<Rightarrow> metadata_ok m | None \<Rightarrow> False)
     \<and> is_str_or_null (field (body r) ''s3_path'')
     \<and> is_sized (field (body r) ''analysis''))"

definition no_risk_envelope :: "response \<Rightarrow> bool" where
  "no_risk_envelope r =
    (statusCode r = 200 \<and> headers r = None
     \<and> body r = JObj [(''message'', JStr ''No at-risk students identified''),
                       (''analysis'', JStr ''All students are performing well!'')])"

definition failure_envelope :: "response \<Rightarrow> bool" where
  "failure_envelope r =
    (statusCode r = 500 \<and> headers r = None
     \<and> object_keys (body r) = [''error'', ''error_type'']
     \<and> is_str (field (body r) ''error'')
     \<and> is_str (field (body r) ''error_type''))"

definition well_formed :: "response \<Rightarrow> bool" where
  "well_formed r = (success_envelope r \<or> no_risk_envelope r \<or> failure_envelope r)"

text \<open>The failure envelope of an exception, and the S3 location of a report, spelled out.\<close>

definition failure_of :: "exn \<Rightarrow> response" where
  "failure_of e =
    \<lparr>statusCode = 500, headers = None,
     body = JObj [(''error'', JStr (exn_str e)), (''error_type'', JStr (exn_type e))]\<rparr>"

text \<open>The prompts a trace has sent to the provider.\<close>

definition prompts_sent :: "trace \<Rightarrow> json option list" where
  "prompts_sent tr =
    map (\<lambda>(model_id, b). case field b ''messages'' of
                            Some (JList [m]) \<Rightarrow> field m ''content'' | _ \<Rightarrow> None)
        (bedrock_calls tr)"


definition text_reply :: "string \<Rightarrow> json" where
  "text_reply s = JObj [(''content'', JList [JObj [(''type'', JStr ''text''), (''text'', JStr s)]])]"

text \<open>
  Sample worlds and events, used to run the handler on concrete inputs. The sample database
  has three districts with performance indices 71, 92.5 and 40.25 and no other KPI, all
  columns of approximate type, and no active student.
\<close>

definition sample_join_of :: "string \<Rightarrow> rat \<Rightarrow> district_join" where
  "sample_join_of name index =
    \<lparr>d_district_name = name, s_state_name = ''Maharashtra'',
     c_district_performance_index = Some index,
     sa_attendance_percentage = None,
     ep_pass_percentage = None,
     sp_sports_participation_rate = None,
     ae_activity_engagement_rate = None,
     ta_teacher_attendance_percentage = None,
     i_avg_inspection_score = None\<rparr>"

definition sample_joins :: "district_join list" where
  "sample_joins =
    [sample_join_of ''Nashik'' 71, sample_join_of ''Pune'' (185 / 2),
     sample_join_of ''Latur'' (161 / 4)]"

definition sample_repr :: "rat \<Rightarrow> string" where
  "sample_repr v =
    (if v = 185 / 2 then ''92.5'' else if v = 71 then ''71.0''
     else if v = 161 / 4 then ''40.25'' else ''0.0'')"

definition sample_row_of :: "string \<Rightarrow> string \<Rightarrow> row" where
  "sample_row_of name index =
    [(''district_name'', JsonValue (JStr name)),
     (''state_name'', JsonValue (JStr ''Maharashtra'')),
     (''performance_index'', JsonValue (JFloat index)),
     (''student_attendance'', JsonValue (JFloat ''0.0'')),
     (''pass_rate'', JsonValue (JFloat ''0.0'')),
     (''sports_participation'', JsonValue (JFloat ''0.0'')),
     (''activity_engagement'', JsonValue (JFloat ''0.0'')),
     (''teacher_attendance'', JsonValue (JFloat ''0.0'')),
     (''inspection_score'', JsonValue (JFloat ''0.0''))]"

definition sample_districts :: "row list" where
  "sample_districts =
    [sample_row_of ''Pune'' ''92.5'', sample_row_of ''Nashik'' ''71.0'',
     sample_row_of ''Latur'' ''40.25'']"

definition sample_world :: world where
  "sample_world =
    \<lparr>district_join_rows = Inr sample_joins,
     student_groups = Inr [],
     column_type = (\<lambda>column. Approximate),
     float_repr = sample_repr,
     bedrock = (\<lambda>i model_id b. Inr (text_reply ''Districts are stable.'')),
     s3_put = (\<lambda>bucket key report. None),
     S3_BUCKET = ''school-monitoring-reports'',
     stamp_key = ''20240301_101500'',
     iso_report = ''2024-03-01T10:15:00.120000'',
     iso_body = ''2024-03-01T10:15:00.450000'',
     execution_time = ''2.25''\<rparr>"

definition sample_event :: "string \<Rightarrow> event" where
  "sample_event t = \<lparr>ev_analysis_type = Some t, ev_model = Some ''haiku'', ev_save_to_s3 = Some True\<rparr>"

definition throttled :: exn where
  "throttled = Exn ''ThrottlingException'' ''Rate exceeded''"


definition sink_down_world :: world where
  "sink_down_world =
    sample_world\<lparr>s3_put := (\<lambda>bucket key report. Some (Exn ''ClientError'' ''AccessDenied''))\<rparr>"

text \<open>The trace of a run that rendered \<open>prompt\<close> and called the provider, before any S3 write.\<close>

definition trace_invoked :: "event \<Rightarrow> string \<Rightarrow> trace" where
  "trace_invoked ev prompt =
     \<lparr>fetches = [query_for (the_analysis_type ev)],
      bedrock_calls = [(models_get (the_model_choice ev), request_body prompt)],
      s3_puts = []\<rparr>"

text \<open>
  Further sample worlds: a provider that is always throttled; a world that differs from
  the sample world in everything but the database; a database whose columns are all of
  exact type, with one active student.
\<close>

definition provider_down_world :: world where
  "provider_down_world = sample_world\<lparr>bedrock := (\<lambda>i model_id b. Inl throttled)\<rparr>"

definition other_world :: world where
  "other_world =
    \<lparr>district_join_rows = Inr sample_joins,
     student_groups = Inl (Exn ''OperationalError'' ''connection refused''),
     column_type = (\<lambda>column. Approximate),
     float_repr = sample_repr,
     bedrock = (\<lambda>i model_id b. Inl throttled),
     s3_put = (\<lambda>bucket key report. Some (Exn ''ClientError'' ''AccessDenied'')),
     S3_BUCKET = ''another-bucket'',
     stamp_key = ''20250615_235959'',
     iso_report = ''2025-06-15T23:59:59.000100'',
     iso_body = ''2025-06-15T23:59:59.900000'',
     execution_time = ''0.75''\<rparr>"

definition exact_world :: world where
  "exact_world =
    sample_world\<lparr>column_type := (\<lambda>column. Exact), student_groups := Inr [no_exam_student]\<rparr>"

definition empty_event :: event where
  "empty_event = \<lparr>ev_analysis_type = None, ev_model = None, ev_save_to_s3 = None\<rparr>"

text \<open>The analysis types that have a template of their own.\<close>

definition registered_types :: "string list" where
  "registered_types = map fst registered_prompts"

text \<open>Twelve district rows, for the length of a prompt.\<close>

definition many_districts :: "row list" where
  "many_districts =
    map (\<lambda>name. [(''district_name'', JsonValue (JStr name)),
                 (''performance_index'', JsonValue (JFloat ''50.0''))])
      [''D01'', ''D02'', ''D03'', ''D04'', ''D05'', ''D06'',
       ''D07'', ''D08'', ''D09'', ''D10'', ''D11'', ''D12'']"

text \<open>The exception of the serialisation, and the at-risk row of the student without exams.\<close>

definition decimal_error :: exn where
  "decimal_error = Exn ''TypeError'' ''Object of type Decimal is not JSON serializable''"

definition asha_world :: world where
  "asha_world = sample_world\<lparr>student_groups := Inr [no_exam_student]\<rparr>"

definition asha_row :: row where
  "asha_row =
    [(''student_name'', JsonValue (JStr ''Asha'')),
     (''gender'', JsonValue (JStr ''F'')),
     (''school_name'', JsonValue (JStr ''ZP School'')),
     (''district_name'', JsonValue (JStr ''Latur'')),
     (''avg_marks'', JsonValue JNull),
     (''attendance_pct'', Decimal 50)]"

text \<open>The aliases of the seven numeric fields of a district row.\<close>

definition district_numeric_keys :: "string list" where
  "district_numeric_keys =
    [''performance_index'', ''student_attendance'', ''pass_rate'', ''sports_participation'',
     ''activity_engagement'', ''teacher_attendance'', ''inspection_score'']"

text \<open>The marks and the attendance counts of a group, as the aggregates see them.\<close>

definition marks_of :: "student_group \<Rightarrow> rat list" where
  "marks_of g = [m. Some m \<leftarrow> er_marks_obtained g]"

definition days_present :: "student_group \<Rightarrow> nat" where
  "days_present g = length (filter (\<lambda>s. s = Some ''Present'') (sa_status g))"

definition days_recorded :: "student_group \<Rightarrow> nat" where
  "days_recorded g = length (filter (\<lambda>i. i \<noteq> None) (sa_attendance_id g))"

text \<open>A field that holds a value with two decimal places within half a hundredth of \<open>x\<close>.\<close>

definition rounded_from :: "rat \<Rightarrow> rat option \<Rightarrow> bool" where
  "rounded_from x out =
    (case out of None \<Rightarrow> False | Some r \<Rightarrow> two_decimals r \<and> \<bar>r - x\<bar> \<le> 1 / 200)"

text \<open>
  The success envelope of a run that fetched \<open>data\<close> and obtained \<open>analysis\<close>, spelled out
  field by field, with the S3 location of the report.
\<close>

definition expected_metadata :: "world \<Rightarrow> event \<Rightarrow> row list \<Rightarrow> json" where
  "expected_metadata w ev data =
    JObj [(''model'', JStr (the_model_choice ev)),
          (''model_id'', JStr (models_get (the_model_choice ev))),
          (''records_analyzed'', JInt (int (length data))),
          (''execution_time_seconds'', JFloat (execution_time w))]"

definition expected_key :: "world \<Rightarrow> event \<Rightarrow> string" where
  "expected_key w ev = ''reports/'' @ the_analysis_type ev @ ''/'' @ stamp_key w @ ''.json''"

definition expected_report :: "world \<Rightarrow> event \<Rightarrow> row list \<Rightarrow> json \<Rightarrow> json" where
  "expected_report w ev data analysis =
    JObj [(''timestamp'', JStr (iso_report w)),
          (''analysis_type'', JStr (the_analysis_type ev)),
          (''metadata'', expected_metadata w ev data),
          (''analysis'', analysis)]"

definition expected_s3_path :: "world \<Rightarrow> event \<Rightarrow> row list \<Rightarrow> json \<Rightarrow> json" where
  "expected_s3_path w ev data analysis =
    (if the_save_s3 ev
        \<and> s3_put w (S3_BUCKET w) (expected_key w ev) (expected_report w ev data analysis) = None
     then JStr (''s3://'' @ S3_BUCKET w @ ''/'' @ expected_key w ev)
     else JNull)"

definition success_of :: "world \<Rightarrow> event \<Rightarrow> row list \<Rightarrow> json \<Rightarrow> response" where
  "success_of w ev data analysis =
    \<lparr>statusCode = 200,
     headers = Some [(''Content-Type'', ''application/json''),
                     (''Access-Control-Allow-Origin'', ''*'')],
     body = JObj [(''timestamp'', JStr (iso_body w)),
                  (''analysis_type'', JStr (the_analysis_type ev)),
                  (''metadata'', expected_metadata w ev data),
                  (''s3_path'', expected_s3_path w ev data analysis),
                  (''analysis'', analysis)]\<rparr>"

definition no_risk_of :: response where
  "no_risk_of =
    \<lparr>statusCode = 200, headers = None,
     body = JObj [(''message'', JStr ''No at-risk students identified''),
                  (''analysis'', JStr ''All students are performing well!'')]\<rparr>"

definition unknown_type_event :: event where
  "unknown_type_event =
    \<lparr>ev_analysis_type = Some ''district_performance'', ev_model = None, ev_save_to_s3 = None\<rparr>"

text \<open>
  The criterion of the \<^verbatim>\<open>HAVING\<close> clause and the two orders, written out: marks below 60
  or attendance below 70, a NULL never being below; ascending with NULL first, by marks and
  among equal marks by attendance; descending by the performance index with NULL last.
\<close>

definition at_risk_criterion :: "at_risk_student \<Rightarrow> bool" where
  "at_risk_criterion r =
    ((case avg_marks r of None \<Rightarrow> False | Some m \<Rightarrow> m < 60)
     \<or> (case attendance_pct r of None \<Rightarrow> False | Some a \<Rightarrow> a < 70))"

definition null_first_le :: "rat option \<Rightarrow> rat option \<Rightarrow> bool" where
  "null_first_le x y =
    (case x of None \<Rightarrow> True | Some a \<Rightarrow> (case y of None \<Rightarrow> False | Some b \<Rightarrow> a \<le> b))"

definition at_risk_ascending :: "at_risk_student \<Rightarrow> at_risk_student \<Rightarrow> bool" where
  "at_risk_ascending r1 r2 =
    (null_first_le (avg_marks r1) (avg_marks r2)
     \<and> (avg_marks r1 = avg_marks r2 \<longrightarrow> null_first_le (attendance_pct r1) (attendance_pct r2)))"

definition index_descending :: "district_join \<Rightarrow> district_join \<Rightarrow> bool" where
  "index_descending j1 j2 =
    (case c_district_performance_index j2 of
       None \<Rightarrow> True
     | Some b \<Rightarrow> (case c_district_performance_index j1 of None \<Rightarrow> False | Some a \<Rightarrow> b \<le> a))"

section \<open>The runs of the handler\<close>

text \<open>
  A run of \<^verbatim>\<open>lambda_handler\<close> ends in one of five ways: the query raises; the at-risk
  query returns no row; the serialisation of the rows raises; the provider call or the
  unwrapping of its response raises; or the narrative is obtained and the success envelope
  is built. The lemmas give the response and the trace of each.
\<close>

lemmas param_defs = the_analysis_type_def the_model_choice_def the_save_s3_def

lemma inference_result_eq:
  "inference_result w ev prompt = bind_exn (provider_answer w ev prompt) unwrap_response"
  by (simp add: inference_result_def provider_answer_def invoke_bedrock_def no_trace_def Let_def)

lemma handler_fetch_failed:
  assumes "db_for w (the_analysis_type ev) = Inl e"
  shows "lambda_handler ev w =
           (error_response e, no_trace\<lparr>fetches := [query_for (the_analysis_type ev)]\<rparr>)"
  using assms
  by (simp add: lambda_handler_def handler_try_def param_defs db_for_def query_for_def
      fetch_at_risk_students_def fetch_district_kpis_def no_trace_def Let_def split: if_splits)

lemma handler_short_circuit:
  assumes "the_analysis_type ev = ''at_risk_students''" and "db_at_risk w = Inr []"
  shows "lambda_handler ev w = (no_risk_response, no_trace\<lparr>fetches := [''at_risk_students'']\<rparr>)"
  using assms
  by (simp add: lambda_handler_def handler_try_def param_defs
      fetch_at_risk_students_def no_trace_def Let_def)

lemma handler_prompt_failed:
  assumes "db_for w (the_analysis_type ev) = Inr data"
    and "the_analysis_type ev = ''at_risk_students'' \<longrightarrow> data \<noteq> []"
    and "create_bedrock_prompt data (the_analysis_type ev) = Inl e"
  shows "lambda_handler ev w =
           (error_response e, no_trace\<lparr>fetches := [query_for (the_analysis_type ev)]\<rparr>)"
  using assms
  by (simp add: lambda_handler_def handler_try_def param_defs db_for_def query_for_def
      fetch_at_risk_students_def fetch_district_kpis_def no_trace_def Let_def split: if_splits)

lemma handler_invoke_failed:
  assumes "db_for w (the_analysis_type ev) = Inr data"
    and "the_analysis_type ev = ''at_risk_students'' \<longrightarrow> data \<noteq> []"
    and "create_bedrock_prompt data (the_analysis_type ev) = Inr prompt"
    and "inference_result w ev prompt = Inl e"
  shows "lambda_handler ev w = (error_response e, trace_invoked ev prompt)"
  using assms unfolding inference_result_eq
  by (simp add: lambda_handler_def handler_try_def param_defs db_for_def query_for_def
      provider_answer_def invoke_bedrock_def trace_invoked_def
      fetch_at_risk_students_def fetch_district_kpis_def no_trace_def Let_def split: if_splits)

lemma handler_invoke_ok:
  assumes "db_for w (the_analysis_type ev) = Inr data"
    and "the_analysis_type ev = ''at_risk_students'' \<longrightarrow> data \<noteq> []"
    and "create_bedrock_prompt data (the_analysis_type ev) = Inr prompt"
    and "inference_result w ev prompt = Inr analysis"
  shows "lambda_handler ev w =
           (let metadata = make_metadata w (the_model_choice ev) (models_get (the_model_choice ev)) data;
                saved = (if the_save_s3 ev
                         then save_to_s3 w (trace_invoked ev prompt) analysis (the_analysis_type ev) metadata
                         else (None, trace_invoked ev prompt))
            in (success_response w (the_analysis_type ev) metadata (fst saved) analysis, snd saved))"
  using assms unfolding inference_result_eq
  by (simp add: lambda_handler_def handler_try_def param_defs db_for_def query_for_def
      provider_answer_def invoke_bedrock_def trace_invoked_def
      fetch_at_risk_students_def fetch_district_kpis_def no_trace_def Let_def split: if_splits prod.splits)

text \<open>Every run is one of the five.\<close>

lemma handler_cases:
  obtains (fetch_failed) e where "db_for w (the_analysis_type ev) = Inl e"
  | (short_circuit) "the_analysis_type ev = ''at_risk_students''" "db_at_risk w = Inr []"
  | (prompt_failed) data e where "db_for w (the_analysis_type ev) = Inr data"
      "the_analysis_type ev = ''at_risk_students'' \<longrightarrow> data \<noteq> []"
      "create_bedrock_prompt data (the_analysis_type ev) = Inl e"
  | (invoke_failed) data prompt e where "db_for w (the_analysis_type ev) = Inr data"
      "the_analysis_type ev = ''at_risk_students'' \<longrightarrow> data \<noteq> []"
      "create_bedrock_prompt data (the_analysis_type ev) = Inr prompt"
      "inference_result w ev prompt = Inl e"
  | (invoke_ok) data prompt analysis where "db_for w (the_analysis_type ev) = Inr data"
      "the_analysis_type ev = ''at_risk_students'' \<longrightarrow> data \<noteq> []"
      "create_bedrock_prompt data (the_analysis_type ev) = Inr prompt"
      "inference_result w ev prompt = Inr analysis"
proof (cases "db_for w (the_analysis_type ev)")
  case (Inl e)
  then show ?thesis by (rule fetch_failed)
next
  case (Inr data)
  show ?thesis
  proof (cases "the_analysis_type ev = ''at_risk_students'' \<and> data = []")
    case True
    with Inr show ?thesis by (intro short_circuit) (simp_all add: db_for_def)
  next
    case False
    then have ne: "the_analysis_type ev = ''at_risk_students'' \<longrightarrow> data \<noteq> []" by simp
    show ?thesis
    proof (cases "create_bedrock_prompt data (the_analysis_type ev)")
      case (Inl e)
      with Inr ne show ?thesis by (rule prompt_failed)
    next
      case p: (Inr prompt)
      show ?thesis
      proof (cases "inference_result w ev prompt")
        case (Inl e)
        with Inr ne p show ?thesis by (rule invoke_failed)
      next
        case r: (Inr analysis)
        with Inr ne p show ?thesis by (rule invoke_ok)
      qed
    qed
  qed
qed

lemma save_to_s3_calls:
  "bedrock_calls (snd (save_to_s3 w tr a t m)) = bedrock_calls tr"
  by (simp add: save_to_s3_def Let_def split: option.splits)

lemma save_to_s3_fetches: "fetches (snd (save_to_s3 w tr a t m)) = fetches tr"
  by (simp add: save_to_s3_def Let_def split: option.splits)

text \<open>The provider calls and the queries of a run, read off the five cases.\<close>

lemma handler_bedrock_calls:
  "bedrock_calls (snd (lambda_handler ev w)) =
    (case db_for w (the_analysis_type ev) of
       Inl e \<Rightarrow> []
     | Inr data \<Rightarrow>
         if the_analysis_type ev = ''at_risk_students'' \<and> data = [] then []
         else (case create_bedrock_prompt data (the_analysis_type ev) of
                 Inl e \<Rightarrow> []
               | Inr prompt \<Rightarrow> [(models_get (the_model_choice ev), request_body prompt)]))"
proof (cases w ev rule: handler_cases)
  case (fetch_failed e)
  then show ?thesis by (simp add: handler_fetch_failed no_trace_def)
next
  case short_circuit
  then show ?thesis by (simp add: handler_short_circuit no_trace_def db_for_def)
next
  case (prompt_failed data e)
  then show ?thesis by (simp add: handler_prompt_failed no_trace_def)
next
  case (invoke_failed data prompt e)
  then show ?thesis by (simp add: handler_invoke_failed trace_invoked_def)
next
  case (invoke_ok data prompt analysis)
  then show ?thesis
    by (simp add: handler_invoke_ok Let_def save_to_s3_calls) (simp add: trace_invoked_def)
qed


lemma handler_fetches:
  "fetches (snd (lambda_handler ev w)) = [query_for (the_analysis_type ev)]"
proof (cases w ev rule: handler_cases)
  case (fetch_failed e)
  then show ?thesis by (simp add: handler_fetch_failed no_trace_def)
next
  case short_circuit
  then show ?thesis by (simp add: handler_short_circuit no_trace_def query_for_def)
next
  case (prompt_failed data e)
  then show ?thesis by (simp add: handler_prompt_failed no_trace_def)
next
  case (invoke_failed data prompt e)
  then show ?thesis by (simp add: handler_invoke_failed trace_invoked_def)
next
  case (invoke_ok data prompt analysis)
  then show ?thesis
    by (simp add: handler_invoke_ok Let_def save_to_s3_fetches) (simp add: trace_invoked_def)
qed

lemma handler_prompts_sent:
  "prompts_sent (snd (lambda_handler ev w)) =
    (case db_for w (the_analysis_type ev) of
       Inl e \<Rightarrow> []
     | Inr data \<Rightarrow>
         if the_analysis_type ev = ''at_risk_students'' \<and> data = [] then []
         else (case create_bedrock_prompt data (the_analysis_type ev) of
                 Inl e \<Rightarrow> []
               | Inr prompt \<Rightarrow> [Some (JStr prompt)]))"
  by (simp add: prompts_sent_def handler_bedrock_calls request_body_def split: sum.splits)

text \<open>The dictionary lookup of \<^verbatim>\<open>create_bedrock_prompt\<close>, on the templates themselves.\<close>

lemma map_of_filled:
  "map_of (map (\<lambda>(name, pre, post). (name, pre @ d @ post)) ps) t =
     map_option (\<lambda>(pre, post). pre @ d @ post) (map_of ps t)"
  by (induction ps) auto

lemma create_bedrock_prompt_eq:
  "create_bedrock_prompt data t =
     (case json_dumps data of
        Inl e \<Rightarrow> Inl e
      | Inr s \<Rightarrow>
         (case map_of registered_prompts t of
            Some (pre, post) \<Rightarrow> Inr (pre @ s @ post)
          | None \<Rightarrow> Inr (comprehensive_pre @ s @ comprehensive_post)))"
  by (simp add: create_bedrock_prompt_def Let_def map_of_filled split: option.splits sum.splits)

lemma create_bedrock_prompt_raises:
  "create_bedrock_prompt data t = Inl e \<longleftrightarrow> json_dumps data = Inl e"
  by (simp add: create_bedrock_prompt_eq split: sum.splits option.splits)

text \<open>Only a \<^verbatim>\<open>TypeError\<close> on a \<^verbatim>\<open>Decimal\<close> leaves the serialisation.\<close>

lemma json_of_raises: "json_of v = Inl e \<Longrightarrow> e = decimal_error"
  by (cases v) (simp_all add: decimal_error_def)

lemma members_json_raises: "members_json r = Inl e \<Longrightarrow> e = decimal_error"
  by (induction r rule: members_json.induct) (auto split: sum.splits dest: json_of_raises)

lemma rows_json_raises: "rows_json rs = Inl e \<Longrightarrow> e = decimal_error"
  by (induction rs) (auto split: sum.splits dest: members_json_raises)

lemma json_dumps_raises: "json_dumps data = Inl e \<Longrightarrow> e = decimal_error"
  by (auto simp: json_dumps_def split: sum.splits dest: rows_json_raises)

text \<open>
  The serialisation of a dataset is at least two characters per row long, and every prompt
  is a registered template around it.
\<close>

lemma dumps_obj_len: "2 \<le> length (dumps lvl (JObj m))"
  by (cases m) simp_all

lemma rows_json_objects:
  "rows_json rs = Inr js \<Longrightarrow> length js = length rs \<and> (\<forall>j \<in> set js. \<exists>m. j = JObj m)"
  by (induction rs arbitrary: js) (auto split: sum.splits)

lemma dumps_items_objects_len:
  "\<forall>j \<in> set js. \<exists>m. j = JObj m \<Longrightarrow> 2 * length js \<le> length (dumps_items lvl js)"
proof (induction js)
  case Nil
  then show ?case by simp
next
  case (Cons r rs)
  then obtain m where r: "r = JObj m" by auto
  show ?case
  proof (cases rs)
    case Nil
    then show ?thesis using dumps_obj_len [of lvl m] r by simp
  next
    case c: (Cons r' rs')
    with Cons dumps_obj_len [of lvl m] r show ?thesis by simp
  qed
qed

lemma json_dumps_len:
  assumes "json_dumps data = Inr s"
  shows "2 * length data \<le> length s"
proof -
  from assms obtain js where js: "rows_json data = Inr js" and s: "s = dumps 0 (JList js)"
    by (auto simp: json_dumps_def split: sum.splits)
  from rows_json_objects [OF js] have len: "length js = length data"
    and obj: "\<forall>j \<in> set js. \<exists>m. j = JObj m" by auto
  show ?thesis
  proof (cases js)
    case Nil
    with len s show ?thesis by simp
  next
    case (Cons j js')
    with dumps_items_objects_len [OF obj, of 1] len s show ?thesis by simp
  qed
qed

lemma rows_json_replicate_empty: "rows_json (replicate n []) = Inr (replicate n (JObj []))"
  by (induction n) simp_all

lemma registered_pre_nonempty:
  "(name, pre, post) \<in> set registered_prompts \<Longrightarrow> pre \<noteq> []"
  by (auto simp: registered_prompts_def comprehensive_pre_def at_risk_pre_def quick_summary_pre_def
      at_risk_students_pre_def predictive_pre_def py_lines_def)

lemma create_bedrock_prompt_shape:
  assumes "json_dumps data = Inr s"
  shows "\<exists>name pre post. (name, pre, post) \<in> set registered_prompts
      \<and> create_bedrock_prompt data t = Inr (pre @ s @ post)"
proof (cases "map_of registered_prompts t")
  case None
  moreover have "(''comprehensive'', comprehensive_pre, comprehensive_post) \<in> set registered_prompts"
    by (simp add: registered_prompts_def)
  ultimately show ?thesis using assms by (auto simp: create_bedrock_prompt_eq)
next
  case (Some pp)
  then obtain pre post where "pp = (pre, post)" by (cases pp)
  with Some have "(t, pre, post) \<in> set registered_prompts" by (auto dest: map_of_SomeD)
  with Some \<open>pp = (pre, post)\<close> assms show ?thesis by (auto simp: create_bedrock_prompt_eq)
qed

text \<open>The sample database, fetched, and runs against the throttled provider.\<close>

lemma sample_fetch: "db_district sample_world = Inr sample_districts"
  by code_simp

lemma sample_serialisable: "\<exists>s. json_dumps sample_districts = Inr s"
  by (simp add: json_dumps_def sample_districts_def sample_row_of_def)

lemma sample_prompt:
  obtains prompt where "create_bedrock_prompt sample_districts t = Inr prompt"
  using sample_serialisable create_bedrock_prompt_shape [of sample_districts _ t] by blast


lemma db_district_sink_down: "db_district sink_down_world = Inr sample_districts"
  by code_simp

lemma db_district_provider_down: "db_district provider_down_world = Inr sample_districts"
  by code_simp

lemma db_district_other: "db_district other_world = Inr sample_districts"
  by code_simp

lemma db_at_risk_sample: "db_at_risk sample_world = Inr []"
  by code_simp

lemma db_at_risk_asha: "db_at_risk asha_world = Inr [asha_row]"
  by code_simp

lemma provider_down_run:
  obtains prompt where
    "db_for provider_down_world (the_analysis_type (sample_event ''comprehensive'')) = Inr sample_districts"
    "the_analysis_type (sample_event ''comprehensive'') = ''at_risk_students'' \<longrightarrow> sample_districts \<noteq> []"
    "create_bedrock_prompt sample_districts (the_analysis_type (sample_event ''comprehensive'')) = Inr prompt"
    "inference_result provider_down_world (sample_event ''comprehensive'') prompt = Inl throttled"
proof -
  obtain prompt where p: "create_bedrock_prompt sample_districts ''comprehensive'' = Inr prompt"
    by (rule sample_prompt)
  have t: "the_analysis_type (sample_event ''comprehensive'') = ''comprehensive''"
    by (simp add: the_analysis_type_def sample_event_def)
  show ?thesis
  proof (rule that [of prompt])
    show "db_for provider_down_world (the_analysis_type (sample_event ''comprehensive'')) = Inr sample_districts"
      by (simp add: t db_for_def db_district_provider_down)
    show "the_analysis_type (sample_event ''comprehensive'') = ''at_risk_students'' \<longrightarrow> sample_districts \<noteq> []"
      by (simp add: t)
    show "create_bedrock_prompt sample_districts (the_analysis_type (sample_event ''comprehensive'')) = Inr prompt"
      by (simp add: t p)
    show "inference_result provider_down_world (sample_event ''comprehensive'') prompt = Inl throttled"
      by (simp add: inference_result_def invoke_bedrock_def provider_down_world_def bind_exn_def Let_def)
  qed
qed

text \<open>The envelopes of the runs, field by field.\<close>

lemma unwrap_response_sized: "unwrap_response r = Inr a \<Longrightarrow> is_sized (Some a)"
  by (cases a) (auto simp: unwrap_response_def bind_exn_def split: sum.splits)

lemma inference_result_sized: "inference_result w ev prompt = Inr a \<Longrightarrow> is_sized (Some a)"
  by (auto simp: inference_result_eq bind_exn_def split: sum.splits dest: unwrap_response_sized)

lemma error_response_failure: "error_response e = failure_of e"
  by (simp add: error_response_def failure_of_def)

lemma failure_of_well_formed: "well_formed (failure_of e)"
  by (simp add: well_formed_def failure_envelope_def failure_of_def)

lemma handler_success:
  assumes "db_for w (the_analysis_type ev) = Inr data"
    and "the_analysis_type ev = ''at_risk_students'' \<longrightarrow> data \<noteq> []"
    and "create_bedrock_prompt data (the_analysis_type ev) = Inr prompt"
    and "inference_result w ev prompt = Inr analysis"
  shows "fst (lambda_handler ev w) = success_of w ev data analysis"
  by (simp add: handler_invoke_ok [OF assms] Let_def success_response_def success_of_def
      make_metadata_def expected_metadata_def expected_s3_path_def expected_key_def
      expected_report_def save_to_s3_def split: option.splits)

lemma success_of_well_formed: "is_sized (Some analysis) \<Longrightarrow> well_formed (success_of w ev data analysis)"
  by (simp add: well_formed_def success_envelope_def success_of_def expected_metadata_def
      metadata_ok_def expected_s3_path_def)

lemma fallback_on_serialisable:
  assumes "t \<notin> set registered_types" and "json_dumps data = Inr s"
  shows "create_bedrock_prompt data t = Inr (comprehensive_pre @ s @ comprehensive_post)"
proof -
  from assms(1) have "map_of registered_prompts t = None"
    by (simp add: registered_types_def map_of_eq_None_iff)
  with assms(2) show ?thesis by (simp add: create_bedrock_prompt_eq)
qed

section \<open>Rounding, coalescing and the aggregates\<close>

text \<open>
  \<^verbatim>\<open>ROUND(x, 2)\<close> yields a value with two decimal places within half a hundredth of
  \<open>x\<close>, and NULL only for NULL.
\<close>

lemma two_decimals_round: "two_decimals (of_int k / 100)"
  by (simp add: two_decimals_def)

lemma ROUND_Some: "ROUND (Some v) 2 = Some (of_int (round_half_away (v * 100)) / 100)"
  by (simp add: ROUND_def)

lemma ROUND_None: "ROUND None d = None"
  by (simp add: ROUND_def)

lemma ROUND_eq_None: "ROUND x d = None \<longleftrightarrow> x = None"
  by (simp add: ROUND_def)

lemma floor_half: "\<lfloor>1 / 2 :: rat\<rfloor> = 0"
  by (rule floor_unique) simp_all

lemma ROUND_COALESCE_None: "ROUND (COALESCE None 0) 2 = Some 0"
  by (simp add: COALESCE_def ROUND_Some round_half_away_def floor_half)

lemma round_half_away_close: "\<bar>of_int (round_half_away x) - x\<bar> \<le> 1 / 2"
proof (cases "0 \<le> x")
  case True
  have "of_int \<lfloor>x + 1 / 2\<rfloor> \<le> x + 1 / 2" "x + 1 / 2 < of_int \<lfloor>x + 1 / 2\<rfloor> + 1"
    by linarith+
  then have "\<bar>of_int \<lfloor>x + 1 / 2\<rfloor> - x\<bar> \<le> 1 / 2" by linarith
  with True show ?thesis by (simp only: round_half_away_def if_True)
next
  case False
  define n where "n = \<lfloor>- x + 1 / 2\<rfloor>"
  have "of_int n \<le> - x + 1 / 2" "- x + 1 / 2 < of_int n + 1"
    unfolding n_def by linarith+
  then have "\<bar>- of_int n - x\<bar> \<le> 1 / 2" by linarith
  then have "\<bar>of_int (- n) - x\<bar> \<le> 1 / 2" by (simp only: of_int_minus)
  with False show ?thesis by (simp only: round_half_away_def if_False n_def)
qed

lemma ROUND_close:
  assumes "ROUND (Some v) 2 = Some r"
  shows "\<bar>r - v\<bar> \<le> 1 / 200"
proof -
  from assms have r: "r = of_int (round_half_away (v * 100)) / 100" by (simp add: ROUND_Some)
  have "\<bar>of_int (round_half_away (v * 100)) - v * 100\<bar> \<le> 1 / 2" by (rule round_half_away_close)
  then show ?thesis unfolding r by (simp add: abs_le_iff field_simps)
qed

lemma rounded_from_ROUND: "rounded_from v (ROUND (Some v) 2)"
proof -
  have "ROUND (Some v) 2 = Some (of_int (round_half_away (v * 100)) / 100)" by (rule ROUND_Some)
  from ROUND_close [OF this] show ?thesis
    by (simp add: ROUND_Some rounded_from_def two_decimals_round)
qed

lemma coerced_and_rounded_ROUND_COALESCE: "coerced_and_rounded x (ROUND (COALESCE x 0) 2)"
proof (cases x)
  case None
  then show ?thesis
    by (simp add: ROUND_COALESCE_None coerced_and_rounded_def two_decimals_def)
next
  case (Some v)
  with rounded_from_ROUND [of v] show ?thesis
    by (simp add: COALESCE_def coerced_and_rounded_def rounded_from_def split: option.splits)
qed

lemma district_fields_normalised:
  "list_all2 coerced_and_rounded (kpi_columns j) (kpi_fields (select_district_kpis j))"
  by (simp add: kpi_columns_def kpi_fields_def select_district_kpis_def
      coerced_and_rounded_ROUND_COALESCE)

text \<open>The aggregates, on the lists of the group.\<close>

lemma marks_of_non_null: "marks_of g = non_null (er_marks_obtained g)"
  by (simp add: marks_of_def non_null_def)

lemma COUNT_present: "COUNT (map present_case ss) = length (filter (\<lambda>s. s = Some ''Present'') ss)"
  by (induction ss) (simp_all add: COUNT_def non_null_def present_case_def)

lemma COUNT_ids: "COUNT ids = length (filter (\<lambda>i. i \<noteq> None) ids)"
  by (induction ids) (simp_all add: COUNT_def non_null_def split: option.splits)

lemma AVG_marks:
  "AVG (er_marks_obtained g) =
     (if marks_of g = [] then None
      else Some (sum_list (marks_of g) / of_nat (length (marks_of g))))"
  unfolding AVG_def marks_of_non_null by (rule refl)

lemma attendance_counts:
  "COUNT (map present_case (sa_status g)) = days_present g"
  "COUNT (sa_attendance_id g) = days_recorded g"
proof -
  show "COUNT (map present_case (sa_status g)) = days_present g"
    unfolding days_present_def by (rule COUNT_present)
  show "COUNT (sa_attendance_id g) = days_recorded g"
    unfolding days_recorded_def by (rule COUNT_ids)
qed

lemma avg_marks_null:
  "avg_marks (select_at_risk_students g) = None \<longleftrightarrow> marks_of g = []"
  by (simp add: select_at_risk_students_def ROUND_eq_None AVG_marks)

lemma avg_marks_rounded:
  assumes "marks_of g \<noteq> []"
  shows "rounded_from (sum_list (marks_of g) / of_nat (length (marks_of g)))
           (avg_marks (select_at_risk_students g))"
  using assms by (simp add: select_at_risk_students_def AVG_marks rounded_from_ROUND)

lemma attendance_pct_null:
  "attendance_pct (select_at_risk_students g) = None \<longleftrightarrow> days_recorded g = 0"
  by (simp add: select_at_risk_students_def ROUND_eq_None sql_div_def NULLIF_def attendance_counts)

lemma attendance_pct_rounded:
  assumes "days_recorded g \<noteq> 0"
  shows "rounded_from (of_nat (days_present g) * 100 / of_nat (days_recorded g))
           (attendance_pct (select_at_risk_students g))"
  using assms
  by (simp add: select_at_risk_students_def sql_div_def NULLIF_def attendance_counts
      rounded_from_ROUND)

text \<open>The rows a fetch returns.\<close>

lemma py_number_not_none: "py_number w ty (Some v) \<noteq> JsonValue JNull"
  by (cases ty) (simp_all add: py_number_def)

lemma ROUND_COALESCE_Some: "\<exists>v. ROUND (COALESCE x 0) 2 = Some v"
proof -
  have "ROUND (COALESCE x 0) 2 \<noteq> None"
    by (simp add: ROUND_eq_None COALESCE_def split: option.splits)
  then show ?thesis by blast
qed

lemma district_row_numeric:
  assumes "k \<in> set district_numeric_keys"
  shows "\<exists>v. map_of (py_district_row w (select_district_kpis j)) k = Some v \<and> v \<noteq> JsonValue JNull"
proof -
  have "\<exists>v. py_number w ty (ROUND (COALESCE x 0) 2) = v \<and> v \<noteq> JsonValue JNull" for ty x
    using ROUND_COALESCE_Some [of x] py_number_not_none by auto
  with assms show ?thesis
    by (auto simp: district_numeric_keys_def py_district_row_def select_district_kpis_def)
qed

lemma district_row_names:
  "map_of (py_district_row w (select_district_kpis j)) ''district_name''
     = Some (JsonValue (JStr (d_district_name j)))"
  "map_of (py_district_row w (select_district_kpis j)) ''state_name''
     = Some (JsonValue (JStr (s_state_name j)))"
  by (simp_all add: py_district_row_def select_district_kpis_def)

lemma having_is_criterion: "having_at_risk = at_risk_criterion"
  by (rule ext) (simp add: having_at_risk_def at_risk_criterion_def sql_less_def)

lemma sorted_key_wrt:
  assumes "sorted (map f xs)" and "\<And>a b. f a \<le> f b \<Longrightarrow> P a b"
  shows "sorted_wrt P xs"
proof -
  from assms(1) have "sorted_wrt (\<lambda>a b. f a \<le> f b) xs" by (simp add: sorted_map)
  then show ?thesis by (rule sorted_wrt_mono_rel [rotated]) (simp add: assms(2))
qed

lemma district_key_descending:
  "district_order_key j1 \<le> district_order_key j2 \<Longrightarrow> index_descending j1 j2"
  by (auto simp: district_order_key_def index_descending_def split: option.splits)

lemma at_risk_key_ascending:
  "at_risk_order_key r1 \<le> at_risk_order_key r2 \<Longrightarrow> at_risk_ascending r1 r2"
  by (auto simp: at_risk_order_key_def at_risk_ascending_def null_first_def null_first_le_def
      split: option.splits)

lemma mset_take_subset: "mset (take n xs) \<subseteq># mset xs"
proof -
  have "mset xs = mset (take n xs) + mset (drop n xs)"
    by (metis append_take_drop_id mset_append)
  then show ?thesis by simp
qed

lemma db_district_rows:
  assumes "district_join_rows w = Inr js"
  shows "\<exists>js'. mset js' = mset js \<and> sorted_wrt index_descending js'
      \<and> db_district w = Inr (map (\<lambda>j. py_district_row w (select_district_kpis j)) js')"
proof -
  have "mset (sort_key district_order_key js) = mset js" by simp
  moreover have "sorted_wrt index_descending (sort_key district_order_key js)"
    by (rule sorted_key_wrt [where f = district_order_key]) (simp_all add: district_key_descending)
  moreover have "db_district w
      = Inr (map (\<lambda>j. py_district_row w (select_district_kpis j)) (sort_key district_order_key js))"
    using assms by (simp add: db_district_def district_kpis_query_def comp_def)
  ultimately show ?thesis by blast
qed

lemma db_at_risk_rows:
  assumes "student_groups w = Inr gs"
  shows "\<exists>rs. db_at_risk w = Inr (map (py_student_row w) rs)
      \<and> mset rs \<subseteq># mset (filter at_risk_criterion (map select_at_risk_students gs))
      \<and> length rs = min 20 (length (filter at_risk_criterion (map select_at_risk_students gs)))
      \<and> sorted_wrt at_risk_ascending rs"
proof -
  let ?fs = "filter at_risk_criterion (map select_at_risk_students gs)"
  let ?rs = "take 20 (sort_key at_risk_order_key ?fs)"
  have q: "at_risk_students_query gs = ?rs"
    by (simp add: at_risk_students_query_def having_is_criterion)
  have "mset ?rs \<subseteq># mset (sort_key at_risk_order_key ?fs)" by (rule mset_take_subset)
  then have "mset ?rs \<subseteq># mset ?fs" by simp
  moreover have "length ?rs = min 20 (length ?fs)" by (simp add: min.commute)
  moreover have "sorted_wrt at_risk_ascending (sort_key at_risk_order_key ?fs)"
    by (rule sorted_key_wrt [where f = at_risk_order_key]) (simp_all add: at_risk_key_ascending)
  then have "sorted_wrt at_risk_ascending ?rs" by (rule sorted_wrt_take)
  moreover have "db_at_risk w = Inr (map (py_student_row w) ?rs)"
    using assms by (simp add: db_at_risk_def q)
  ultimately show ?thesis by blast
qed

section \<open>The Inference Gateway: one provider call, no retry\<close>




section \<open>The short circuit of the at-risk-students analysis\<close>

text \<open>
  Claim C2, as the code has it. When the at-risk-students query returns no row, the run
  ends with status 200 and the fixed two-field body (a message and the fixed analysis
  text); the body has no metadata, hence no record count; the only effect of the run is the
  query: no provider call and no S3 write.
\<close>

theorem at_risk_short_circuit:
  assumes "ev_analysis_type ev = Some ''at_risk_students''" and "db_at_risk w = Inr []"
  shows "statusCode (fst (lambda_handler ev w)) = 200
    \<and> body (fst (lambda_handler ev w)) =
        JObj [(''message'', JStr ''No at-risk students identified''),
              (''analysis'', JStr ''All students are performing well!'')]
    \<and> field (body (fst (lambda_handler ev w))) ''metadata'' = None
    \<and> fetches (snd (lambda_handler ev w)) = [''at_risk_students'']
    \<and> bedrock_calls (snd (lambda_handler ev w)) = []
    \<and> s3_puts (snd (lambda_handler ev w)) = []"
proof -
  from assms(1) have "the_analysis_type ev = ''at_risk_students''"
    by (simp add: the_analysis_type_def)
  from handler_short_circuit [OF this assms(2)] show ?thesis
    by (simp add: no_risk_response_def no_trace_def)
qed

theorem at_risk_short_circuit_witness:
  "ev_analysis_type (sample_event ''at_risk_students'') = Some ''at_risk_students''
   \<and> db_at_risk sample_world = Inr []
   \<and> statusCode (fst (lambda_handler (sample_event ''at_risk_students'') sample_world)) = 200
   \<and> bedrock_calls (snd (lambda_handler (sample_event ''at_risk_students'') sample_world)) = []"
  using at_risk_short_circuit [of "sample_event ''at_risk_students''" sample_world]
  by (simp add: sample_event_def db_at_risk_sample)

text \<open>
  The record count that the specification expects in the metadata of this envelope is not
  there: the body has no \<open>metadata\<close> field.
\<close>

theorem short_circuit_record_count_counterexample:
  "db_at_risk sample_world = Inr []
   \<and> field (body (fst (lambda_handler (sample_event ''at_risk_students'') sample_world)))
        ''metadata'' = None"
  by (simp add: lambda_handler_def handler_try_def sample_event_def db_at_risk_sample
      fetch_at_risk_students_def no_risk_response_def Let_def)

section \<open>Persistence is best effort\<close>

text \<open>
  Claim C3. In a run whose query, prompt construction and provider call succeed and that
  asks for persistence, a Report Sink that fails on every write does not fail the run: the
  status is 200, the \<open>analysis\<close> field is the narrative that \<^verbatim>\<open>invoke_bedrock\<close> returned,
  unchanged, and \<open>s3_path\<close> is null. The write was attempted once.
\<close>

theorem persistence_failure_non_fatal:
  assumes fetch: "db_for w (the_analysis_type ev) = Inr data"
    and nonempty: "the_analysis_type ev = ''at_risk_students'' \<longrightarrow> data \<noteq> []"
    and templating: "create_bedrock_prompt data (the_analysis_type ev) = Inr prompt"
    and inference: "inference_result w ev prompt = Inr analysis"
    and requested: "the_save_s3 ev"
    and sink_fails: "\<forall>bucket key report. s3_put w bucket key report \<noteq> None"
  shows "statusCode (fst (lambda_handler ev w)) = 200
    \<and> field (body (fst (lambda_handler ev w))) ''analysis'' = Some analysis
    \<and> field (body (fst (lambda_handler ev w))) ''s3_path'' = Some JNull
    \<and> length (s3_puts (snd (lambda_handler ev w))) = 1"
proof -
  have "fst (save_to_s3 w tr analysis t m) = None" for tr t m
    using sink_fails by (auto simp: save_to_s3_def Let_def split: option.splits)
  moreover have "length (s3_puts (snd (save_to_s3 w (trace_invoked ev prompt) analysis t m))) = 1" for t m
    by (simp add: save_to_s3_def Let_def trace_invoked_def split: option.splits)
  ultimately show ?thesis
    using requested
    by (simp add: handler_invoke_ok [OF fetch nonempty templating inference] Let_def success_response_def)
qed

theorem persistence_failure_non_fatal_witness:
  "statusCode (fst (lambda_handler (sample_event ''comprehensive'') sink_down_world)) = 200
   \<and> field (body (fst (lambda_handler (sample_event ''comprehensive'') sink_down_world))) ''analysis''
       = Some (JStr ''Districts are stable.'')
   \<and> field (body (fst (lambda_handler (sample_event ''comprehensive'') sink_down_world))) ''s3_path''
       = Some JNull"
proof -
  obtain prompt where p: "create_bedrock_prompt sample_districts ''comprehensive'' = Inr prompt"
    by (rule sample_prompt)
  have t: "the_analysis_type (sample_event ''comprehensive'') = ''comprehensive''"
    by (simp add: the_analysis_type_def sample_event_def)
  have "db_for sink_down_world (the_analysis_type (sample_event ''comprehensive'')) = Inr sample_districts"
    by (simp add: t db_for_def db_district_sink_down)
  moreover have "the_analysis_type (sample_event ''comprehensive'') = ''at_risk_students''
      \<longrightarrow> sample_districts \<noteq> []"
    by (simp add: t)
  moreover have "create_bedrock_prompt sample_districts (the_analysis_type (sample_event ''comprehensive''))
      = Inr prompt"
    by (simp add: t p)
  moreover have "inference_result sink_down_world (sample_event ''comprehensive'') prompt
      = Inr (JStr ''Districts are stable.'')"
    by (simp add: inference_result_def invoke_bedrock_def Let_def sink_down_world_def sample_world_def
        bind_exn_def unwrap_response_def text_reply_def)
  moreover have "the_save_s3 (sample_event ''comprehensive'')"
    by (simp add: the_save_s3_def sample_event_def)
  moreover have "\<forall>bucket key report. s3_put sink_down_world bucket key report \<noteq> None"
    by (simp add: sink_down_world_def)
  ultimately show ?thesis
    using persistence_failure_non_fatal
      [of sink_down_world "sample_event ''comprehensive''" sample_districts prompt
          "JStr ''Districts are stable.''"]
    by simp
qed

section \<open>The envelope of a failed inference\<close>

text \<open>
  Claim C4, as the code has it. When the query and the prompt construction succeed and the
  inference call then fails with an exception \<open>e\<close>, the run ends with status 500 and a
  body of exactly two fields: \<open>error\<close>, the message of \<open>e\<close>, and \<open>error_type\<close>, its class
  name. The body has no \<open>analysis\<close> field and no metadata: the number of fetched records
  is not reported.
\<close>

theorem inference_failure_envelope:
  assumes fetch: "db_for w (the_analysis_type ev) = Inr data"
    and nonempty: "the_analysis_type ev = ''at_risk_students'' \<longrightarrow> data \<noteq> []"
    and templating: "create_bedrock_prompt data (the_analysis_type ev) = Inr prompt"
    and inference: "inference_result w ev prompt = Inl e"
  shows "statusCode (fst (lambda_handler ev w)) = 500
    \<and> body (fst (lambda_handler ev w)) =
        JObj [(''error'', JStr (exn_str e)), (''error_type'', JStr (exn_type e))]
    \<and> field (body (fst (lambda_handler ev w))) ''analysis'' = None
    \<and> field (body (fst (lambda_handler ev w))) ''metadata'' = None"
  by (simp add: handler_invoke_failed [OF fetch nonempty templating inference] error_response_def)

theorem inference_failure_envelope_witness:
  "statusCode (fst (lambda_handler (sample_event ''comprehensive'') provider_down_world)) = 500
   \<and> body (fst (lambda_handler (sample_event ''comprehensive'') provider_down_world)) =
        JObj [(''error'', JStr ''Rate exceeded''), (''error_type'', JStr ''ThrottlingException'')]"
proof -
  obtain prompt where
    "db_for provider_down_world (the_analysis_type (sample_event ''comprehensive'')) = Inr sample_districts"
    "the_analysis_type (sample_event ''comprehensive'') = ''at_risk_students'' \<longrightarrow> sample_districts \<noteq> []"
    "create_bedrock_prompt sample_districts (the_analysis_type (sample_event ''comprehensive'')) = Inr prompt"
    "inference_result provider_down_world (sample_event ''comprehensive'') prompt = Inl throttled"
    by (rule provider_down_run)
  from inference_failure_envelope [OF this] show ?thesis
    by (simp add: throttled_def)
qed

text \<open>
  Three district rows are fetched and the provider is throttled: the envelope has no
  \<open>metadata\<close> field, so no record count of 3.
\<close>

theorem inference_failure_record_count_counterexample:
  "db_district provider_down_world = Inr sample_districts
   \<and> length sample_districts = 3
   \<and> field (body (fst (lambda_handler (sample_event ''comprehensive'') provider_down_world)))
        ''metadata'' = None"
proof -
  obtain prompt where
    "db_for provider_down_world (the_analysis_type (sample_event ''comprehensive'')) = Inr sample_districts"
    "the_analysis_type (sample_event ''comprehensive'') = ''at_risk_students'' \<longrightarrow> sample_districts \<noteq> []"
    "create_bedrock_prompt sample_districts (the_analysis_type (sample_event ''comprehensive'')) = Inr prompt"
    "inference_result provider_down_world (sample_event ''comprehensive'') prompt = Inl throttled"
    by (rule provider_down_run)
  from handler_invoke_failed [OF this] show ?thesis
    by (simp add: db_district_provider_down sample_districts_def error_response_def)
qed

section \<open>One envelope for every invocation\<close>

text \<open>
  Claim C5. For every event and every behaviour of the database, the provider, S3 and the
  clock, the handler returns one well-formed envelope, and no exception leaves it. Every
  place where the body of the \<^verbatim>\<open>try\<close> block can raise ends in the failure envelope of
  the exception raised there, with its message and its class name: the query, the
  serialisation of the rows (always a \<^verbatim>\<open>TypeError\<close>, and then no provider call is made)
  and the inference call with the unwrapping of its response. An empty at-risk result gives
  the fixed no-risk envelope. Every other run gives the success envelope: the timestamp,
  the analysis type, the metadata with the number of fetched records, the S3 location or
  null, and the narrative, which is never null.
\<close>

theorem handler_always_well_formed:
  "well_formed (fst (lambda_handler ev w))
   \<and> (\<forall>e. db_for w (the_analysis_type ev) = Inl e \<longrightarrow> fst (lambda_handler ev w) = failure_of e)
   \<and> (the_analysis_type ev = ''at_risk_students'' \<longrightarrow> db_at_risk w = Inr [] \<longrightarrow>
        fst (lambda_handler ev w) = no_risk_of)
   \<and> (\<forall>data. db_for w (the_analysis_type ev) = Inr data \<longrightarrow>
        (the_analysis_type ev = ''at_risk_students'' \<longrightarrow> data \<noteq> []) \<longrightarrow>
          (\<forall>e. create_bedrock_prompt data (the_analysis_type ev) = Inl e \<longrightarrow>
             fst (lambda_handler ev w) = failure_of e \<and> exn_type e = ''TypeError''
             \<and> bedrock_calls (snd (lambda_handler ev w)) = [])
        \<and> (\<forall>prompt. create_bedrock_prompt data (the_analysis_type ev) = Inr prompt \<longrightarrow>
             (\<forall>e. inference_result w ev prompt = Inl e \<longrightarrow>
                fst (lambda_handler ev w) = failure_of e)
           \<and> (\<forall>analysis. inference_result w ev prompt = Inr analysis \<longrightarrow>
                fst (lambda_handler ev w) = success_of w ev data analysis
                \<and> is_sized (Some analysis))))"
proof (intro conjI allI impI)
  show "well_formed (fst (lambda_handler ev w))"
  proof (cases w ev rule: handler_cases)
    case (fetch_failed e)
    then show ?thesis by (simp add: handler_fetch_failed error_response_failure failure_of_well_formed)
  next
    case short_circuit
    then show ?thesis
      by (simp add: handler_short_circuit well_formed_def no_risk_envelope_def no_risk_response_def)
  next
    case (prompt_failed data e)
    then show ?thesis by (simp add: handler_prompt_failed error_response_failure failure_of_well_formed)
  next
    case (invoke_failed data prompt e)
    then show ?thesis by (simp add: handler_invoke_failed error_response_failure failure_of_well_formed)
  next
    case (invoke_ok data prompt analysis)
    then show ?thesis
      by (simp add: handler_success inference_result_sized success_of_well_formed)
  qed
next
  fix e assume "db_for w (the_analysis_type ev) = Inl e"
  then show "fst (lambda_handler ev w) = failure_of e"
    by (simp add: handler_fetch_failed error_response_failure)
next
  assume "the_analysis_type ev = ''at_risk_students''" "db_at_risk w = Inr []"
  then show "fst (lambda_handler ev w) = no_risk_of"
    by (simp add: handler_short_circuit no_risk_response_def no_risk_of_def)
next
  fix data e
  assume a: "db_for w (the_analysis_type ev) = Inr data"
    "the_analysis_type ev = ''at_risk_students'' \<longrightarrow> data \<noteq> []"
    "create_bedrock_prompt data (the_analysis_type ev) = Inl e"
  then show "fst (lambda_handler ev w) = failure_of e"
    by (simp add: handler_prompt_failed error_response_failure)
  from a(3) have "e = decimal_error"
    by (simp add: create_bedrock_prompt_raises json_dumps_raises)
  then show "exn_type e = ''TypeError''" by (simp add: decimal_error_def)
  from a show "bedrock_calls (snd (lambda_handler ev w)) = []"
    by (simp add: handler_prompt_failed no_trace_def)
next
  fix data prompt e
  assume "db_for w (the_analysis_type ev) = Inr data"
    "the_analysis_type ev = ''at_risk_students'' \<longrightarrow> data \<noteq> []"
    "create_bedrock_prompt data (the_analysis_type ev) = Inr prompt"
    "inference_result w ev prompt = Inl e"
  then show "fst (lambda_handler ev w) = failure_of e"
    by (simp add: handler_invoke_failed error_response_failure)
next
  fix data prompt analysis
  assume a: "db_for w (the_analysis_type ev) = Inr data"
    "the_analysis_type ev = ''at_risk_students'' \<longrightarrow> data \<noteq> []"
    "create_bedrock_prompt data (the_analysis_type ev) = Inr prompt"
    "inference_result w ev prompt = Inr analysis"
  then show "fst (lambda_handler ev w) = success_of w ev data analysis"
    by (rule handler_success)
  from a(4) show "is_sized (Some analysis)" by (rule inference_result_sized)
qed

theorem handler_always_well_formed_witness:
  "well_formed (fst (lambda_handler (sample_event ''comprehensive'') provider_down_world))
   \<and> fst (lambda_handler (sample_event ''comprehensive'') provider_down_world) = failure_of throttled
   \<and> fst (lambda_handler (sample_event ''comprehensive'') sample_world)
       = success_of sample_world (sample_event ''comprehensive'') sample_districts
           (JStr ''Districts are stable.'')"
proof -
  obtain prompt where d:
    "db_for provider_down_world (the_analysis_type (sample_event ''comprehensive'')) = Inr sample_districts"
    "the_analysis_type (sample_event ''comprehensive'') = ''at_risk_students'' \<longrightarrow> sample_districts \<noteq> []"
    "create_bedrock_prompt sample_districts (the_analysis_type (sample_event ''comprehensive'')) = Inr prompt"
    "inference_result provider_down_world (sample_event ''comprehensive'') prompt = Inl throttled"
    by (rule provider_down_run)
  have s: "db_for sample_world (the_analysis_type (sample_event ''comprehensive'')) = Inr sample_districts"
    by (simp add: the_analysis_type_def sample_event_def db_for_def sample_fetch)
  have i: "inference_result sample_world (sample_event ''comprehensive'') prompt
      = Inr (JStr ''Districts are stable.'')"
    by (simp add: inference_result_def invoke_bedrock_def Let_def sample_world_def
        bind_exn_def unwrap_response_def text_reply_def)
  from handler_always_well_formed [of "sample_event ''comprehensive''" provider_down_world] d
  have "well_formed (fst (lambda_handler (sample_event ''comprehensive'') provider_down_world))"
    and "fst (lambda_handler (sample_event ''comprehensive'') provider_down_world) = failure_of throttled"
    by blast+
  moreover from handler_always_well_formed [of "sample_event ''comprehensive''" sample_world] s d(2,3) i
  have "fst (lambda_handler (sample_event ''comprehensive'') sample_world)
       = success_of sample_world (sample_event ''comprehensive'') sample_districts
           (JStr ''Districts are stable.'')"
    by blast
  ultimately show ?thesis by blast
qed

section \<open>The fallback template and the serialisation of the rows\<close>

text \<open>
  Claim C6 says that \<^verbatim>\<open>create_bedrock_prompt\<close> does not fail for any dataset and any
  analysis type without a template of its own. On a dataset whose rows are serialisable
  the function does fall back to the comprehensive template (lemma
  \<open>fallback_on_serialisable\<close>). It fails on the rows that the at-risk query itself returns:
  the attendance percentage of a student with attendance records is a
  \<^verbatim>\<open>decimal.Decimal\<close>, \<^verbatim>\<open>json.dumps\<close> raises \<^verbatim>\<open>TypeError\<close> on it, and no prompt is
  produced. The same happens in a run of the handler for an unregistered type when the
  district KPI columns are of exact type: the run ends with status 500 and no provider
  call.
\<close>

theorem render_raises_on_decimal:
  "db_at_risk asha_world = Inr [asha_row]
   \<and> ''district_performance'' \<notin> set registered_types
   \<and> create_bedrock_prompt [asha_row] ''district_performance''
       = Inl (Exn ''TypeError'' ''Object of type Decimal is not JSON serializable'')
   \<and> fst (lambda_handler unknown_type_event exact_world)
       = \<lparr>statusCode = 500, headers = None,
          body = JObj [(''error'', JStr ''Object of type Decimal is not JSON serializable''),
                       (''error_type'', JStr ''TypeError'')]\<rparr>
   \<and> bedrock_calls (snd (lambda_handler unknown_type_event exact_world)) = []"
proof -
  have a: "create_bedrock_prompt [asha_row] ''district_performance''
       = Inl (Exn ''TypeError'' ''Object of type Decimal is not JSON serializable'')"
    by (simp add: create_bedrock_prompt_eq json_dumps_def asha_row_def)
  have b: "''district_performance'' \<notin> set registered_types"
    by (simp add: registered_types_def registered_prompts_def)
  have c: "lambda_handler unknown_type_event exact_world
     = (\<lparr>statusCode = 500, headers = None,
          body = JObj [(''error'', JStr ''Object of type Decimal is not JSON serializable''),
                       (''error_type'', JStr ''TypeError'')]\<rparr>,
        \<lparr>fetches = [''district_kpis''], bedrock_calls = [], s3_puts = []\<rparr>)"
    by code_simp
  from a b c db_at_risk_asha show ?thesis by simp
qed

section \<open>Normalisation of the numeric fields\<close>

text \<open>
  Claim C7, as the code has it. The district query coerces each of its seven numeric
  columns to 0 when it is NULL and rounds it to two decimal places: every numeric field of
  every district row is non-NULL, has two decimals and is within half a hundredth of its
  column, and no numeric cell of a fetched district row is \<^verbatim>\<open>None\<close>. The two names pass
  through unchanged. The query returns one row for every row of its join, none dropped,
  in the order of the performance index of the join, descending.

  The at-risk query rounds its two numeric fields to two decimal places but does not
  coerce NULL: \<open>avg_marks\<close> is NULL (and \<^verbatim>\<open>None\<close> in the fetched row) exactly when the
  student has no exam mark, and otherwise the rounded mean of the marks;
  \<open>attendance_pct\<close> is NULL exactly when the student has no attendance record, and
  otherwise the rounded percentage of the days present among the days recorded. The four
  names pass through unchanged. The query returns the students that pass the \<^verbatim>\<open>HAVING\<close>
  clause (marks below 60 or attendance below 70), in ascending order of marks and
  attendance, cut after twenty rows.
\<close>

theorem select_list_normalisation:
  "list_all2 coerced_and_rounded (kpi_columns j) (kpi_fields (select_district_kpis j))
   \<and> (\<forall>k \<in> set district_numeric_keys.
         \<exists>v. map_of (py_district_row w (select_district_kpis j)) k = Some v \<and> v \<noteq> JsonValue JNull)
   \<and> map_of (py_district_row w (select_district_kpis j)) ''district_name''
        = Some (JsonValue (JStr (d_district_name j)))
   \<and> map_of (py_district_row w (select_district_kpis j)) ''state_name''
        = Some (JsonValue (JStr (s_state_name j)))
   \<and> (\<forall>js. district_join_rows w = Inr js \<longrightarrow>
         (\<exists>js'. mset js' = mset js \<and> sorted_wrt index_descending js'
            \<and> db_district w = Inr (map (\<lambda>j. py_district_row w (select_district_kpis j)) js')))
   \<and> (avg_marks (select_at_risk_students g) = None \<longleftrightarrow> marks_of g = [])
   \<and> (marks_of g \<noteq> [] \<longrightarrow>
         rounded_from (sum_list (marks_of g) / of_nat (length (marks_of g)))
           (avg_marks (select_at_risk_students g)))
   \<and> (attendance_pct (select_at_risk_students g) = None \<longleftrightarrow> days_recorded g = 0)
   \<and> (days_recorded g \<noteq> 0 \<longrightarrow>
         rounded_from (of_nat (days_present g) * 100 / of_nat (days_recorded g))
           (attendance_pct (select_at_risk_students g)))
   \<and> (map_of (py_student_row w (select_at_risk_students g)) ''avg_marks'' = Some (JsonValue JNull)
         \<longleftrightarrow> marks_of g = [])
   \<and> (map_of (py_student_row w (select_at_risk_students g)) ''attendance_pct'' = Some (JsonValue JNull)
         \<longleftrightarrow> days_recorded g = 0)
   \<and> map (\<lambda>k. map_of (py_student_row w (select_at_risk_students g)) k)
          [''student_name'', ''gender'', ''school_name'', ''district_name'']
        = map (\<lambda>s. Some (JsonValue (JStr s)))
            [g_student_name g, g_gender g, g_school_name g, g_district_name g]
   \<and> (\<forall>gs. student_groups w = Inr gs \<longrightarrow>
         (\<exists>rs. db_at_risk w = Inr (map (py_student_row w) rs)
            \<and> mset rs \<subseteq># mset (filter at_risk_criterion (map select_at_risk_students gs))
            \<and> length rs = min 20 (length (filter at_risk_criterion (map select_at_risk_students gs)))
            \<and> sorted_wrt at_risk_ascending rs))"
proof -
  have avg_cell: "map_of (py_student_row w (select_at_risk_students g)) ''avg_marks''
        = Some (JsonValue JNull) \<longleftrightarrow> marks_of g = []"
    using avg_marks_null [of g] py_number_not_none
    by (cases "avg_marks (select_at_risk_students g)") (auto simp: py_student_row_def py_number_def)
  have att_cell: "map_of (py_student_row w (select_at_risk_students g)) ''attendance_pct''
        = Some (JsonValue JNull) \<longleftrightarrow> days_recorded g = 0"
    using attendance_pct_null [of g]
    by (cases "attendance_pct (select_at_risk_students g)") (auto simp: py_student_row_def py_number_def)
  have names: "map (\<lambda>k. map_of (py_student_row w (select_at_risk_students g)) k)
          [''student_name'', ''gender'', ''school_name'', ''district_name'']
        = map (\<lambda>s. Some (JsonValue (JStr s)))
            [g_student_name g, g_gender g, g_school_name g, g_district_name g]"
    by (simp add: py_student_row_def select_at_risk_students_def)
  from district_fields_normalised [of j] district_row_numeric [of _ w j] district_row_names [of w j]
    db_district_rows [of w] avg_marks_null [of g] avg_marks_rounded [of g]
    attendance_pct_null [of g] attendance_pct_rounded [of g] avg_cell att_cell names
    db_at_risk_rows [of w]
  show ?thesis by (intro conjI) blast+
qed

theorem select_list_normalisation_witness:
  "marks_of no_exam_student = []
   \<and> days_recorded no_exam_student \<noteq> 0
   \<and> avg_marks (select_at_risk_students no_exam_student) = None
   \<and> rounded_from 50 (attendance_pct (select_at_risk_students no_exam_student))
   \<and> coerced_and_rounded (sa_attendance_percentage sample_join)
        (student_attendance (select_district_kpis sample_join))
   \<and> db_district sample_world \<noteq> Inr []"
proof -
  have m: "marks_of no_exam_student = []"
    by (simp add: marks_of_def no_exam_student_def)
  have d: "days_recorded no_exam_student = 2" "days_present no_exam_student = 1"
    by (simp_all add: days_recorded_def days_present_def no_exam_student_def)
  have js: "district_join_rows sample_world = Inr sample_joins"
    by (simp add: sample_world_def)
  note t = select_list_normalisation [of sample_join sample_world no_exam_student]
  from t m have "avg_marks (select_at_risk_students no_exam_student) = None" by blast
  moreover from t d have "rounded_from 50 (attendance_pct (select_at_risk_students no_exam_student))"
    by simp
  moreover from t have "coerced_and_rounded (sa_attendance_percentage sample_join)
        (student_attendance (select_district_kpis sample_join))"
    by (simp add: kpi_columns_def kpi_fields_def)
  moreover from t js obtain js' where "mset js' = mset sample_joins"
    "db_district sample_world = Inr (map (\<lambda>j. py_district_row sample_world (select_district_kpis j)) js')"
    by blast
  then have "db_district sample_world \<noteq> Inr []"
    by (cases js') (auto simp: sample_joins_def)
  ultimately show ?thesis using m d by simp
qed

text \<open>
  A student without exam results who was present on one of two days passes the
  \<^verbatim>\<open>HAVING\<close> clause on attendance (50 is below 70) and is fetched with \<^verbatim>\<open>None\<close> for
  \<open>avg_marks\<close>: a declared numeric field of the dataset is null.
\<close>

theorem at_risk_null_counterexample:
  "db_at_risk asha_world = Inr [asha_row]
   \<and> map_of asha_row ''avg_marks'' = Some (JsonValue JNull)"
  by (simp add: db_at_risk_asha asha_row_def)

section \<open>Prompt construction depends on the type and the dataset only\<close>

text \<open>
  Claim C8. \<^verbatim>\<open>create_bedrock_prompt\<close> reads nothing but its two arguments. Two runs of the
  handler for the same analysis type \<open>T\<close> on the same dataset \<open>D\<close> send identical prompts
  to the provider, whatever the clock, the model choice, the persistence flag, the
  answers of the provider and the state of S3 are in either run; the prompt, if one is
  sent, is the one that \<open>create_bedrock_prompt D T\<close> returns, and none is sent when it
  raises.
\<close>

theorem prompt_construction_deterministic:
  assumes "the_analysis_type ev1 = T" and "the_analysis_type ev2 = T"
    and "db_for w1 T = Inr D" and "db_for w2 T = Inr D"
  shows "prompts_sent (snd (lambda_handler ev1 w1)) = prompts_sent (snd (lambda_handler ev2 w2))
    \<and> (\<forall>p. create_bedrock_prompt D T = Inr p \<longrightarrow>
          set (prompts_sent (snd (lambda_handler ev1 w1))) \<subseteq> {Some (JStr p)})
    \<and> (\<forall>e. create_bedrock_prompt D T = Inl e \<longrightarrow>
          prompts_sent (snd (lambda_handler ev1 w1)) = [])"
  using assms by (auto simp: handler_prompts_sent split: sum.splits)

theorem prompt_construction_deterministic_witness:
  "db_for sample_world ''predictive'' = Inr sample_districts
   \<and> db_for other_world ''predictive'' = Inr sample_districts
   \<and> prompts_sent (snd (lambda_handler (sample_event ''predictive'') sample_world))
     = prompts_sent (snd (lambda_handler
         \<lparr>ev_analysis_type = Some ''predictive'', ev_model = None, ev_save_to_s3 = Some False\<rparr>
         other_world))"
proof -
  have a: "the_analysis_type (sample_event ''predictive'') = ''predictive''"
    and b: "the_analysis_type
        \<lparr>ev_analysis_type = Some ''predictive'', ev_model = None, ev_save_to_s3 = Some False\<rparr>
        = ''predictive''"
    and c: "db_for sample_world ''predictive'' = Inr sample_districts"
    and d: "db_for other_world ''predictive'' = Inr sample_districts"
    by (simp_all add: the_analysis_type_def sample_event_def db_for_def sample_fetch db_district_other)
  from prompt_construction_deterministic [OF a b c d] c d show ?thesis
    by blast
qed

section \<open>No truncation of the dataset\<close>

text \<open>
  Claim C9, as the code has it. \<^verbatim>\<open>create_bedrock_prompt\<close> never truncates: whenever the
  dataset serialises, the prompt is a registered template around the serialisation of the
  whole dataset, so it is longer than that serialisation, which has at least two
  characters per row; when the serialisation raises, so does the function. No input-size
  budget is enforced: for every budget there is a dataset whose prompt exceeds it. The
  metadata of a run holds the model, the model identifier, the number of rows and the
  execution time, and no note of a truncation.
\<close>

theorem prompt_never_truncated:
  "(\<forall>s. json_dumps data = Inr s \<longrightarrow>
      (\<exists>name pre post. (name, pre, post) \<in> set registered_prompts
          \<and> create_bedrock_prompt data t = Inr (pre @ s @ post))
      \<and> (\<forall>p. create_bedrock_prompt data t = Inr p \<longrightarrow> length s < length p)
      \<and> 2 * length data \<le> length s)
   \<and> (\<forall>e. json_dumps data = Inl e \<longrightarrow> create_bedrock_prompt data t = Inl e)
   \<and> (\<exists>p. create_bedrock_prompt (replicate (Suc budget) []) t = Inr p \<and> budget < length p)
   \<and> make_metadata w model_choice model_id data =
        JObj [(''model'', JStr model_choice), (''model_id'', JStr model_id),
              (''records_analyzed'', JInt (int (length data))),
              (''execution_time_seconds'', JFloat (execution_time w))]"
proof -
  have len: "length s < length p"
    if "json_dumps d = Inr s" "create_bedrock_prompt d t = Inr p" for d s p
  proof -
    from create_bedrock_prompt_shape [OF that(1), of t] obtain name pre post
      where "(name, pre, post) \<in> set registered_prompts"
        and "create_bedrock_prompt d t = Inr (pre @ s @ post)" by blast
    with registered_pre_nonempty that(2) show ?thesis by (cases pre) auto
  qed
  have big: "\<exists>p. create_bedrock_prompt (replicate (Suc budget) []) t = Inr p \<and> budget < length p"
  proof -
    let ?d = "replicate (Suc budget) ([] :: row)"
    have d: "json_dumps ?d = Inr (dumps 0 (JList (replicate (Suc budget) (JObj []))))"
      by (simp only: json_dumps_def rows_json_replicate_empty sum.case)
    from create_bedrock_prompt_shape [OF d, of t] obtain p
      where p: "create_bedrock_prompt ?d t = Inr p" by blast
    from json_dumps_len [OF d] len [OF d p] have "budget < length p" by simp
    with p show ?thesis by blast
  qed
  from big show ?thesis
    using len [of data] create_bedrock_prompt_shape [of data _ t] json_dumps_len [of data]
    by (auto simp: make_metadata_def create_bedrock_prompt_raises)
qed

theorem prompt_never_truncated_witness:
  "\<not> isl (json_dumps many_districts)
   \<and> 24 \<le> length (projr (json_dumps many_districts))
   \<and> length (projr (json_dumps many_districts))
       < length (projr (create_bedrock_prompt many_districts ''at_risk''))"
proof -
  obtain s where s: "json_dumps many_districts = Inr s"
    by (simp add: json_dumps_def many_districts_def)
  from create_bedrock_prompt_shape [OF s, of "''at_risk''"] obtain p
    where p: "create_bedrock_prompt many_districts ''at_risk'' = Inr p" by blast
  from prompt_never_truncated [of many_districts "''at_risk''" 0 sample_world "''sonnet''" sonnet_id] s p
  have "length s < length p" "2 * length many_districts \<le> length s" by blast+
  with s p show ?thesis by (simp add: many_districts_def)
qed

text \<open>
  With a budget of 500 characters and twelve district rows: the serialised dataset exceeds
  the budget, the template around the first row alone would fit, and yet the prompt holds
  all twelve rows and exceeds the budget.
\<close>

theorem prompt_budget_counterexample:
  "\<not> isl (json_dumps many_districts)
   \<and> 500 < length (projr (json_dumps many_districts))
   \<and> length (quick_summary_pre @ projr (json_dumps (take 1 many_districts)) @ quick_summary_post) \<le> 500
   \<and> create_bedrock_prompt many_districts ''quick_summary''
        = Inr (quick_summary_pre @ projr (json_dumps many_districts) @ quick_summary_post)
   \<and> 500 < length (projr (create_bedrock_prompt many_districts ''quick_summary''))"
  by (simp add: create_bedrock_prompt_eq registered_prompts_def many_districts_def json_dumps_def
      dumps_str_def escape_char_def newline_indent_def quick_summary_pre_def quick_summary_post_def
      py_lines_def)

section \<open>Defaults of omitted parameters\<close>

text \<open>
  Claim C10. An event without an analysis type is not rejected: the run is the run for
  \<^verbatim>\<open>comprehensive\<close>, it issues the district query and the prompt it sends is the
  comprehensive template around the serialised rows (no prompt is sent when their
  serialisation raises). An event without a model choice runs as with \<^verbatim>\<open>sonnet\<close>, and
  every provider call uses the sonnet model identifier. An event without a persistence
  flag runs as with the flag set.
\<close>

theorem omitted_parameters_default:
  "(ev_analysis_type ev = None \<longrightarrow>
      lambda_handler ev w = lambda_handler (ev\<lparr>ev_analysis_type := Some ''comprehensive''\<rparr>) w
      \<and> fetches (snd (lambda_handler ev w)) = [''district_kpis'']
      \<and> (\<forall>data s. db_district w = Inr data \<longrightarrow> json_dumps data = Inr s \<longrightarrow>
            prompts_sent (snd (lambda_handler ev w))
              = [Some (JStr (comprehensive_pre @ s @ comprehensive_post))])
      \<and> (\<forall>data e. db_district w = Inr data \<longrightarrow> json_dumps data = Inl e \<longrightarrow>
            prompts_sent (snd (lambda_handler ev w)) = []))
   \<and> (ev_model ev = None \<longrightarrow>
      lambda_handler ev w = lambda_handler (ev\<lparr>ev_model := Some ''sonnet''\<rparr>) w
      \<and> (\<forall>c \<in> set (bedrock_calls (snd (lambda_handler ev w))). fst c = sonnet_id))
   \<and> (ev_save_to_s3 ev = None \<longrightarrow>
      lambda_handler ev w = lambda_handler (ev\<lparr>ev_save_to_s3 := Some True\<rparr>) w)"
proof (intro conjI impI allI)
  assume "ev_analysis_type ev = None"
  then show "lambda_handler ev w = lambda_handler (ev\<lparr>ev_analysis_type := Some ''comprehensive''\<rparr>) w"
    by (simp add: lambda_handler_def handler_try_def)
next
  assume "ev_analysis_type ev = None"
  then show "fetches (snd (lambda_handler ev w)) = [''district_kpis'']"
    by (simp add: handler_fetches the_analysis_type_def query_for_def)
next
  fix data s assume "ev_analysis_type ev = None" "db_district w = Inr data" "json_dumps data = Inr s"
  then show "prompts_sent (snd (lambda_handler ev w))
              = [Some (JStr (comprehensive_pre @ s @ comprehensive_post))]"
    by (simp add: handler_prompts_sent the_analysis_type_def db_for_def create_bedrock_prompt_eq
        registered_prompts_def)
next
  fix data e assume "ev_analysis_type ev = None" "db_district w = Inr data" "json_dumps data = Inl e"
  then show "prompts_sent (snd (lambda_handler ev w)) = []"
    by (simp add: handler_prompts_sent the_analysis_type_def db_for_def create_bedrock_prompt_eq)
next
  assume "ev_model ev = None"
  then show "lambda_handler ev w = lambda_handler (ev\<lparr>ev_model := Some ''sonnet''\<rparr>) w"
    by (simp add: lambda_handler_def handler_try_def)
next
  assume "ev_model ev = None"
  then show "\<forall>c \<in> set (bedrock_calls (snd (lambda_handler ev w))). fst c = sonnet_id"
    by (auto simp: handler_bedrock_calls the_model_choice_def models_get_def models_def
        split: sum.splits if_splits)
next
  assume "ev_save_to_s3 ev = None"
  then show "lambda_handler ev w = lambda_handler (ev\<lparr>ev_save_to_s3 := Some True\<rparr>) w"
    by (simp add: lambda_handler_def handler_try_def)
qed

theorem omitted_parameters_default_witness:
  "ev_analysis_type empty_event = None \<and> ev_model empty_event = None
   \<and> ev_save_to_s3 empty_event = None
   \<and> lambda_handler empty_event sample_world
     = lambda_handler (empty_event\<lparr>ev_analysis_type := Some ''comprehensive''\<rparr>) sample_world
   \<and> lambda_handler empty_event sample_world
     = lambda_handler (empty_event\<lparr>ev_model := Some ''sonnet''\<rparr>) sample_world
   \<and> lambda_handler empty_event sample_world
     = lambda_handler (empty_event\<lparr>ev_save_to_s3 := Some True\<rparr>) sample_world
   \<and> fetches (snd (lambda_handler empty_event sample_world)) = [''district_kpis'']"
proof -
  have h: "ev_analysis_type empty_event = None" "ev_model empty_event = None"
    "ev_save_to_s3 empty_event = None"
    by (simp_all add: empty_event_def)
  from omitted_parameters_default [of empty_event sample_world] h show ?thesis
    by blast
qed

end
